theory Spec2Isabelle
  imports Main "HOL-Library.Sublist" "HOL-Library.AList"
begin

section \<open>Python values shared by the modules\<close>

text \<open>
  Exceptions that can leave a function of \<^verbatim>\<open>get_besluiten_for_date.py\<close>.
  \<^verbatim>\<open>requests.RequestException\<close> never leaves the fetcher (it is caught at line 87),
  so it is an event of the network, not an error value. \<open>OverflowError\<close> and \<open>OSError\<close>
  are what \<^verbatim>\<open>time.sleep\<close> raises for a duration that is too long.
\<close>

datatype py_error = ValueError | ParseError | TypeError | OverflowError | OSError

text \<open>
  Strings are byte strings. \<^verbatim>\<open>str.strip()\<close> removes the characters for which
  \<^verbatim>\<open>str.isspace()\<close> holds; in the ASCII range these are 9..13 and 28..32.
\<close>

definition is_space :: "char \<Rightarrow> bool" where
  "is_space c = (let n = (of_char c :: nat) in (9 \<le> n \<and> n \<le> 13) \<or> (28 \<le> n \<and> n \<le> 32))"

definition strip :: "string \<Rightarrow> string" where
  "strip s = rev (dropWhile is_space (rev (dropWhile is_space s)))"

definition is_digit :: "char \<Rightarrow> bool" where
  "is_digit c = (let n = (of_char c :: nat) in 48 \<le> n \<and> n \<le> 57)"

definition digit_val :: "char \<Rightarrow> int" where
  "digit_val c = int (of_char c) - 48"

text \<open>
  \<^verbatim>\<open>int(s)\<close> on a string: surrounding whitespace is stripped, one sign is allowed,
  then decimal digits, where single underscores may stand between two digits.
  \<open>None\<close> is the \<^verbatim>\<open>ValueError\<close> of Python, which is also raised when the string has
  more digits than \<^verbatim>\<open>sys.get_int_max_str_digits()\<close>, 4300 by default (the sign and the
  underscores are not counted, leading zeros are).
\<close>

definition int_max_str_digits :: nat where
  "int_max_str_digits = 4300"

fun py_digits :: "int \<Rightarrow> string \<Rightarrow> int option" where
  "py_digits acc [] = Some acc"
| "py_digits acc [c] = (if is_digit c then Some (acc * 10 + digit_val c) else None)"
| "py_digits acc (c # d # cs) =
     (if is_digit c then py_digits (acc * 10 + digit_val c) (d # cs)
      else if c = CHR ''_'' \<and> is_digit d then py_digits acc (d # cs)
      else None)"

definition py_unsigned :: "string \<Rightarrow> int option" where
  "py_unsigned s = (case s of [] \<Rightarrow> None
                    | c # cs \<Rightarrow>
                        if is_digit c \<and> length (filter is_digit (c # cs)) \<le> int_max_str_digits
                        then py_digits 0 (c # cs) else None)"

definition py_int :: "string \<Rightarrow> int option" where
  "py_int s =
     (case strip s of
        [] \<Rightarrow> None
      | c # cs \<Rightarrow>
          if c = CHR ''+'' then py_unsigned cs
          else if c = CHR ''-'' then map_option uminus (py_unsigned cs)
          else py_unsigned (c # cs))"

section \<open>The rate-limited fetcher\<close>

subsection \<open>Configuration (api\_config.py)\<close>

text \<open>Durations and the clock are in milliseconds.\<close>

definition REQUEST_DELAY :: int where
  "REQUEST_DELAY = 2000"

definition MAX_RETRIES :: nat where
  "MAX_RETRIES = 3"

definition RETRY_DELAY_MULTIPLIER :: int where
  "RETRY_DELAY_MULTIPLIER = 2"

definition SUCCESSFUL_REQUESTS_TO_RESET :: nat where
  "SUCCESSFUL_REQUESTS_TO_RESET = 5"

subsection \<open>Responses, the network and the process state\<close>

text \<open>
  What the code reads of a \<^verbatim>\<open>requests.Response\<close>: the status code, the value of
  \<^verbatim>\<open>headers.get('Retry-After')\<close> and the body.
\<close>

record response =
  status_code :: nat
  retry_after :: "string option"
  content :: string

text \<open>
  \<^verbatim>\<open>Response.ok\<close> is false exactly when \<^verbatim>\<open>raise_for_status()\<close> raises, that is for
  the status codes 400..599.
\<close>

definition ok :: "response \<Rightarrow> bool" where
  "ok r = (\<not> (400 \<le> status_code r \<and> status_code r < 600))"

text \<open>One call of \<^verbatim>\<open>requests.get\<close> returns a response or raises a RequestException.\<close>

datatype event = Response response | RequestException

type_synonym params = "(string \<times> string) list"

text \<open>
  The state of the process and of its platform: the three function attributes of
  \<^verbatim>\<open>make_rate_limited_request\<close>, the wall clock (advanced by \<^verbatim>\<open>time.sleep\<close>), the
  number of calls of \<^verbatim>\<open>requests.get\<close> made so far, and the paths of the image files
  written so far. \<open>sleep_error\<close> is the exception \<^verbatim>\<open>time.sleep\<close> raises on this platform
  for a duration that is not negative (\<open>None\<close> when it returns after that time): which
  durations are too long, and whether the exception is an OverflowError or an OSError,
  differs between platforms. No function of the program changes it.
\<close>

record world =
  rate_limited :: bool
  last_request_time :: int
  successful_requests :: nat
  clock :: int
  reqs :: nat
  saved :: "string list"
  sleep_error :: "int \<Rightarrow> py_error option"

text \<open>
  The network answers the n-th call of \<^verbatim>\<open>requests.get\<close> of the process, for the url and
  parameters of that call: any sequence of responses and transport errors is one such
  function.
\<close>

type_synonym network = "nat \<Rightarrow> string \<Rightarrow> params \<Rightarrow> event"

definition sleep :: "int \<Rightarrow> world \<Rightarrow> world" where
  "sleep d w = w\<lparr>clock := clock w + d\<rparr>"

subsection \<open>make\_rate\_limited\_request\<close>

text \<open>
  Lines 43 to 52: the wait before the request of one attempt. The delays are computed by
  the fetcher itself (2, 4 and 8 seconds, or what is left of \<^const>\<open>REQUEST_DELAY\<close>), and
  \<^verbatim>\<open>time.sleep\<close> returns for them.
\<close>

definition wait_before :: "nat \<Rightarrow> world \<Rightarrow> world" where
  "wait_before attempt w =
     (if attempt > 0 then sleep (REQUEST_DELAY * RETRY_DELAY_MULTIPLIER ^ (attempt - 1)) w
      else if rate_limited w then
        (let time_since_last = clock w - last_request_time w in
         if time_since_last < REQUEST_DELAY then sleep (REQUEST_DELAY - time_since_last) w
         else w)
      else w)"

text \<open>
  The body of the loop for one attempt either goes on to the next attempt (\<open>Next\<close>,
  the \<^verbatim>\<open>continue\<close> of line 71 and the fall through of the handler at line 87) or
  leaves the function (\<open>Done\<close>): with a response, with \<open>None\<close>, or with an exception
  that the handler does not catch.
\<close>

datatype step = Next world | Done "py_error + response option" world

definition on_response :: "response \<Rightarrow> world \<Rightarrow> step" where
  "on_response r w =
     (if status_code r = 429 then
        (let w1 = w\<lparr>rate_limited := True, successful_requests := 0\<rparr> in
         case retry_after r of
           None \<Rightarrow> Next w1
         | Some ra \<Rightarrow>
             if ra = [] then Next w1
             else (case py_int ra of
                     None \<Rightarrow> Done (Inl ValueError) w1
                   | Some wait_time \<Rightarrow>
                       if wait_time < 0 then Done (Inl ValueError) w1
                       else (case sleep_error w1 (wait_time * 1000) of
                               Some e \<Rightarrow> Done (Inl e) w1
                             | None \<Rightarrow> Next (sleep (wait_time * 1000) w1))))
      else if ok r then
        (let n = successful_requests w + 1 in
         if rate_limited w \<and> n \<ge> SUCCESSFUL_REQUESTS_TO_RESET
         then Done (Inr (Some r)) (w\<lparr>rate_limited := False, successful_requests := 0\<rparr>)
         else Done (Inr (Some r)) (w\<lparr>successful_requests := n\<rparr>))
      else Done (Inr (Some r)) (w\<lparr>successful_requests := 0\<rparr>))"

definition attempt_step :: "network \<Rightarrow> string \<Rightarrow> params \<Rightarrow> nat \<Rightarrow> world \<Rightarrow> step" where
  "attempt_step net url ps attempt w =
     (let w1 = wait_before attempt w;
          ev = net (reqs w1) url ps;
          w2 = w1\<lparr>reqs := reqs w1 + 1\<rparr>
      in case ev of
           Response r \<Rightarrow> on_response r (w2\<lparr>last_request_time := clock w2\<rparr>)
         | RequestException \<Rightarrow>
             (let w3 = w2\<lparr>successful_requests := 0\<rparr> in
              if attempt = MAX_RETRIES then Done (Inr None) w3 else Next w3))"

text \<open>The loop \<^verbatim>\<open>for attempt in range(MAX_RETRIES + 1)\<close> and the final \<^verbatim>\<open>return None\<close>.\<close>

function attempts_from :: "network \<Rightarrow> string \<Rightarrow> params \<Rightarrow> nat \<Rightarrow> world
    \<Rightarrow> (py_error + response option) \<times> world" where
  "attempts_from net url ps attempt w =
     (if attempt < MAX_RETRIES + 1 then
        (case attempt_step net url ps attempt w of
           Next w' \<Rightarrow> attempts_from net url ps (Suc attempt) w'
         | Done res w' \<Rightarrow> (res, w'))
      else (Inr None, w))"
  by pat_completeness auto
termination
  by (relation "measure (\<lambda>(net, url, ps, attempt, w). MAX_RETRIES + 1 - attempt)") auto

definition make_rate_limited_request :: "network \<Rightarrow> string \<Rightarrow> params \<Rightarrow> world
    \<Rightarrow> (py_error + response option) \<times> world" where
  "make_rate_limited_request net url ps w = attempts_from net url ps 0 w"

section \<open>XML trees\<close>

text \<open>
  An \<^verbatim>\<open>xml.etree.ElementTree.Element\<close>: tag, attribute dictionary, the text before the
  first child, the children, and the text after the end tag (\<^verbatim>\<open>tail\<close>).
\<close>

datatype element =
  Element (tag: string) (attrib: "(string \<times> string) list") (text_of: "string option")
    (children: "element list") (tail: "string option")

definition attrib_get :: "element \<Rightarrow> string \<Rightarrow> string option" where
  "attrib_get e k = map_of (attrib e) k"

text \<open>\<^verbatim>\<open>e.findall("t")\<close>: the children of \<open>e\<close> with tag \<open>t\<close>, in document order.\<close>

definition findall :: "string \<Rightarrow> element \<Rightarrow> element list" where
  "findall t e = filter (\<lambda>c. tag c = t) (children e)"

text \<open>\<^verbatim>\<open>e.findall(".//t")\<close>: the elements below \<open>e\<close> with tag \<open>t\<close>, in document order.\<close>

fun below :: "element \<Rightarrow> element list" where
  "below (Element t a x cs y) = concat (map (\<lambda>c. c # below c) cs)"

definition findall_below :: "string \<Rightarrow> element \<Rightarrow> element list" where
  "findall_below t e = filter (\<lambda>c. tag c = t) (below e)"

text \<open>\<^verbatim>\<open>e.itertext()\<close>: the non-empty texts and tails of the tree, in document order.\<close>

definition truthy :: "string option \<Rightarrow> string list" where
  "truthy t = (case t of None \<Rightarrow> [] | Some s \<Rightarrow> if s = [] then [] else [s])"

fun itertext :: "element \<Rightarrow> string list" where
  "itertext (Element t a x cs y) =
     truthy x @ concat (map (\<lambda>c. itertext c @ truthy (tail c)) cs)"

fun join_space :: "string list \<Rightarrow> string" where
  "join_space [] = []"
| "join_space [x] = x"
| "join_space (x # y # ys) = x @ '' '' @ join_space (y # ys)"

text \<open>
  The collaborators of the pipeline that are not code of the repository. \<open>None\<close> stands
  for the exception the collaborator raises.
  \<^item> \<open>http_get\<close>: \<^verbatim>\<open>requests.get\<close>;
  \<^item> \<open>fromstring\<close>: \<^verbatim>\<open>ET.fromstring\<close>, \<open>None\<close> is \<^verbatim>\<open>ET.ParseError\<close>;
  \<^item> \<open>decode\<close>: \<^verbatim>\<open>bytes.decode("utf-8", errors="ignore")\<close>;
  \<^item> \<open>convert_from_bytes\<close>: the pages \<^verbatim>\<open>pdf2image\<close> renders from a PDF;
  \<^item> \<open>encode_png\<close>: \<^verbatim>\<open>page.save(buffer, format='PNG')\<close> and \<^verbatim>\<open>getvalue()\<close>;
  \<^item> \<open>should_download_image\<close>: the verdict of the image classifier;
  \<^item> \<open>save_png\<close>: \<^verbatim>\<open>page.save(path, "PNG")\<close>, false when it raises.
\<close>

type_synonym page = string

record env =
  http_get :: network
  fromstring :: "string \<Rightarrow> element option"
  decode :: "string \<Rightarrow> string"
  convert_from_bytes :: "string \<Rightarrow> page list option"
  encode_png :: "page \<Rightarrow> string option"
  should_download_image :: "string \<Rightarrow> bool option"
  save_png :: "page \<Rightarrow> string \<Rightarrow> bool"

section \<open>Text extraction and metadata\<close>

definition extract_plain_text_from_xml :: "env \<Rightarrow> string \<Rightarrow> string" where
  "extract_plain_text_from_xml env xml_string =
     (case fromstring env xml_string of
        Some root \<Rightarrow> strip (join_space (itertext root))
      | None \<Rightarrow> [])"

text \<open>
  A Python dict with string keys is an association list kept in insertion order;
  \<^verbatim>\<open>d[k] = v\<close> is \<^const>\<open>AList.update\<close>. The value of an attribute that is missing is
  Python's \<^verbatim>\<open>None\<close>, here \<open>None\<close>.
\<close>

type_synonym gebied = "(string \<times> string option) list"

datatype meta_value = Scalar string | Areas "gebied list"

type_synonym metadata = "(string \<times> meta_value) list"

definition sub_step :: "gebied \<Rightarrow> element \<Rightarrow> gebied" where
  "sub_step gebied sub =
     (let sub_name = attrib_get sub ''name'';
          sub_content = attrib_get sub ''content''
      in if sub_name = Some ''OVERHEIDop.geometrie''
         then AList.update ''geometrie'' sub_content gebied
         else if sub_name = Some ''OVERHEIDop.geometrieLabel''
         then AList.update ''label'' sub_content gebied
         else gebied)"

definition gebied_of :: "element \<Rightarrow> gebied" where
  "gebied_of m =
     foldl sub_step [(''type'', attrib_get m ''content'')] (findall ''metadata'' m)"

definition meta_step :: "metadata \<times> gebied list \<Rightarrow> element \<Rightarrow> metadata \<times> gebied list" where
  "meta_step acc m =
     (let name = attrib_get m ''name'';
          content = attrib_get m ''content''
      in if name = Some ''OVERHEIDop.gebiedsmarkering''
         then (fst acc, snd acc @ [gebied_of m])
         else (case (name, content) of
                 (Some n, Some c) \<Rightarrow>
                   if n \<noteq> [] \<and> c \<noteq> []
                   then (AList.update n (Scalar (strip c)) (fst acc), snd acc)
                   else acc
               | _ \<Rightarrow> acc))"

definition parse_metadata_block :: "element \<Rightarrow> metadata" where
  "parse_metadata_block meta_root =
     (let acc = foldl meta_step ([], []) (findall ''metadata'' meta_root) in
      if snd acc \<noteq> []
      then AList.update ''OVERHEIDop.gebiedsmarkering'' (Areas (snd acc)) (fst acc)
      else fst acc)"

section \<open>Image references\<close>

definition REPOSITORY_BASE_URL :: string where
  "REPOSITORY_BASE_URL = ''https://repository.officiele-overheidspublicaties.nl''"

definition ZOEK_BASE_URL :: string where
  "ZOEK_BASE_URL = ''https://zoek.officielebekendmakingen.nl''"

definition pdf_url :: "string \<Rightarrow> string" where
  "pdf_url exb_code =
     REPOSITORY_BASE_URL @ ''/externebijlagen/'' @ exb_code @ ''/1/bijlage/'' @ exb_code @ ''.pdf''"

definition get_pdf_attachment_image_urls :: "string \<Rightarrow> string list" where
  "get_pdf_attachment_image_urls exb_code = [pdf_url exb_code]"

definition embedded_url :: "element \<Rightarrow> string list" where
  "embedded_url ill =
     (case attrib_get ill ''naam'' of
        None \<Rightarrow> []
      | Some naam \<Rightarrow> if naam = [] then [] else [ZOEK_BASE_URL @ ''/'' @ naam])"

definition get_embedded_image_urls_from_xml :: "env \<Rightarrow> string \<Rightarrow> string list" where
  "get_embedded_image_urls_from_xml env xml_string =
     (case fromstring env xml_string of
        None \<Rightarrow> []
      | Some root \<Rightarrow> concat (map embedded_url (findall_below ''illustratie'' root)))"

text \<open>
  \<^verbatim>\<open>re.search(r"exb-[^/]+", s)\<close>: the leftmost position where \<^verbatim>\<open>exb-\<close> is followed by
  at least one character other than a slash; the match runs up to the next slash.
\<close>

definition not_slash :: "char \<Rightarrow> bool" where
  "not_slash c = (c \<noteq> CHR ''/'')"

fun re_search_exb :: "string \<Rightarrow> string option" where
  "re_search_exb [] = None"
| "re_search_exb (c # cs) =
     (if prefix ''exb-'' (c # cs) \<and> takeWhile not_slash (drop 4 (c # cs)) \<noteq> []
      then Some (''exb-'' @ takeWhile not_slash (drop 4 (c # cs)))
      else re_search_exb cs)"

text \<open>
  Lines 227 to 233. A dictionary value that is a non-empty list makes \<^verbatim>\<open>re.search\<close>
  raise a TypeError; \<^const>\<open>parse_metadata_block\<close> stores lists under the area-marking
  key only.
\<close>

definition external_pdf_urls :: "metadata \<Rightarrow> string list option" where
  "external_pdf_urls md =
     (case map_of md ''OVERHEIDop.externeBijlage'' of
        None \<Rightarrow> Some []
      | Some (Scalar s) \<Rightarrow>
          if s = [] then Some []
          else (case re_search_exb s of
                  Some code \<Rightarrow> Some (get_pdf_attachment_image_urls code)
                | None \<Rightarrow> Some [])
      | Some (Areas gs) \<Rightarrow> if gs = [] then Some [] else None)"

definition locate :: "env \<Rightarrow> metadata \<Rightarrow> string \<Rightarrow> string list option" where
  "locate env md content_str =
     (case external_pdf_urls md of
        None \<Rightarrow> None
      | Some image_urls \<Rightarrow> Some (image_urls @ get_embedded_image_urls_from_xml env content_str))"

section \<open>The pipeline for one date\<close>

subsection \<open>Configuration (api\_config.py)\<close>

definition EXCLUDE_KEYWORDS :: "string list" where
  "EXCLUDE_KEYWORDS =
     [''parkeerplaats'', ''laadpaal'', ''gehandicapt'', ''oplaadpunt'',
      ''parkeerverbod'', ''parkeervergunning'', ''parkeerregime'',
      ''parkeermogelijkheden'', ''parkeervoorzieningen'',
      ''parkeersituatie'', ''parkeersituaties'', ''parkeerplaatsen'',
      ''parkeerplaatsvoorzieningen'']"

definition SRU_BASE_URL :: string where
  "SRU_BASE_URL = ''https://repository.overheid.nl/sru''"

definition SRU_VERSION :: string where
  "SRU_VERSION = ''2.0''"

definition SRU_OPERATION :: string where
  "SRU_OPERATION = ''searchRetrieve''"

definition MAX_RECORDS_PER_REQUEST :: string where
  "MAX_RECORDS_PER_REQUEST = ''900''"

definition MIN_PDF_SIZE_BYTES :: nat where
  "MIN_PDF_SIZE_BYTES = 50000"

text \<open>\<^verbatim>\<open>QUERY_TEMPLATE.format(date_start=..., date_end=..., exclude_keywords=...)\<close>.\<close>

definition QUERY_TEMPLATE :: "string \<Rightarrow> string \<Rightarrow> string \<Rightarrow> string" where
  "QUERY_TEMPLATE date_start date_end exclude_keywords =
     ''(c.product-area==officielepublicaties AND dt.modified>='' @ date_start @
     '' AND dt.modified<='' @ date_end @
     '' AND dt.type = '' @ [CHR 0x22] @ ''verkeersbesluit '' @ [CHR 0x22] @
     '' AND cql.allRecords =1 NOT dt.title any '' @ [CHR 0x22] @ exclude_keywords @ [CHR 0x22] @
     '' AND cql.allRecords=1 NOT dt.alternative any '' @ [CHR 0x22] @ exclude_keywords @
     [CHR 0x22] @ '' )''"

definition sru_params :: "string \<Rightarrow> params" where
  "sru_params date_str =
     [(''version'', SRU_VERSION),
      (''operation'', SRU_OPERATION),
      (''query'', QUERY_TEMPLATE date_str date_str (join_space EXCLUDE_KEYWORDS)),
      (''maximumRecords'', MAX_RECORDS_PER_REQUEST)]"

definition sru_recordData :: string where
  "sru_recordData = ''{http://docs.oasis-open.org/ns/search-ws/sruResponse}recordData''"

definition gzd_itemUrl :: string where
  "gzd_itemUrl = ''{http://standaarden.overheid.nl/sru}itemUrl''"

subsection \<open>Strings\<close>

text \<open>\<^verbatim>\<open>str.lower()\<close> on the ASCII range; other bytes are left as they are.\<close>

definition lower_char :: "char \<Rightarrow> char" where
  "lower_char c = (let n = (of_char c :: nat) in if 65 \<le> n \<and> n \<le> 90 then char_of (n + 32) else c)"

definition lower :: "string \<Rightarrow> string" where
  "lower s = map lower_char s"

text \<open>\<^verbatim>\<open>k in s\<close> for strings.\<close>

fun contains :: "string \<Rightarrow> string \<Rightarrow> bool" where
  "contains k [] = (k = [])"
| "contains k (c # cs) = (prefix k (c # cs) \<or> contains k cs)"

text \<open>Line 215: \<^verbatim>\<open>any(k in content.lower() for k in EXCLUDE_KEYWORDS)\<close>.\<close>

definition excluded :: "string \<Rightarrow> bool" where
  "excluded content_str = list_ex (\<lambda>k. contains k (lower content_str)) EXCLUDE_KEYWORDS"

text \<open>\<^verbatim>\<open>s.split("/")[-1]\<close> and \<^verbatim>\<open>s.replace(".xml", "")\<close>.\<close>

definition last_segment :: "string \<Rightarrow> string" where
  "last_segment s = rev (takeWhile not_slash (rev s))"

fun remove_dot_xml :: "string \<Rightarrow> string" where
  "remove_dot_xml [] = []"
| "remove_dot_xml (c # cs) =
     (if prefix ''.xml'' (c # cs) then remove_dot_xml (drop 3 cs) else c # remove_dot_xml cs)"

subsection \<open>get\_besluiten\_for\_date\<close>

text \<open>The dictionary appended to \<^verbatim>\<open>all_day_data\<close> at line 241.\<close>

record besluit =
  besluit_id :: string
  besluit_text :: string
  besluit_metadata :: metadata
  images :: "string list"

text \<open>
  Line 202: a dict comprehension; a later item with the same manifestation replaces an
  earlier one. \<^verbatim>\<open>item_urls.get(k)\<close> is \<open>None\<close> when the key is missing or when the
  text of the item is \<open>None\<close>.
\<close>

definition item_urls :: "element \<Rightarrow> (string option \<times> string option) list" where
  "item_urls record =
     map (\<lambda>item. (attrib_get item ''manifestation'', text_of item)) (findall_below gzd_itemUrl record)"

definition item_urls_get :: "(string option \<times> string option) list \<Rightarrow> string \<Rightarrow> string option" where
  "item_urls_get d k = (case map_of (rev d) (Some k) of None \<Rightarrow> None | Some v \<Rightarrow> v)"

text \<open>Lines 220 to 225. The call of \<^verbatim>\<open>ET.fromstring\<close> at line 224 is outside any handler.\<close>

definition fetch_metadata :: "env \<Rightarrow> string option \<Rightarrow> world \<Rightarrow> (py_error + metadata) \<times> world" where
  "fetch_metadata env metadata_url w =
     (case metadata_url of
        None \<Rightarrow> (Inr [], w)
      | Some mu \<Rightarrow>
          if mu = [] then (Inr [], w)
          else (case make_rate_limited_request (http_get env) mu [] w of
                  (Inl e, w1) \<Rightarrow> (Inl e, w1)
                | (Inr None, w1) \<Rightarrow> (Inr [], w1)
                | (Inr (Some meta_resp), w1) \<Rightarrow>
                    if ok meta_resp then
                      (case fromstring env (content meta_resp) of
                         None \<Rightarrow> (Inl ParseError, w1)
                       | Some meta_root \<Rightarrow> (Inr (parse_metadata_block meta_root), w1))
                    else (Inr [], w1)))"

text \<open>
  The body of the loop over the records (lines 202 to 241): \<open>Inr None\<close> is a
  \<^verbatim>\<open>continue\<close>, \<open>Inr (Some d)\<close> appends \<open>d\<close>, \<open>Inl e\<close> is an exception leaving the function.
\<close>

definition process_record :: "env \<Rightarrow> element \<Rightarrow> world \<Rightarrow> (py_error + besluit option) \<times> world" where
  "process_record env record w =
     (let urls = item_urls record;
          content_url = item_urls_get urls ''xml'';
          metadata_url = item_urls_get urls ''metadata''
      in case content_url of
           None \<Rightarrow> (Inr None, w)
         | Some cu \<Rightarrow>
             if cu = [] then (Inr None, w)
             else (case make_rate_limited_request (http_get env) cu [] w of
                     (Inl e, w1) \<Rightarrow> (Inl e, w1)
                   | (Inr None, w1) \<Rightarrow> (Inr None, w1)
                   | (Inr (Some xml_resp), w1) \<Rightarrow>
                       if \<not> ok xml_resp then (Inr None, w1)
                       else
                         (let content_str = decode env (content xml_resp) in
                          if excluded content_str then (Inr None, w1)
                          else (case fetch_metadata env metadata_url w1 of
                                  (Inl e, w2) \<Rightarrow> (Inl e, w2)
                                | (Inr md, w2) \<Rightarrow>
                                    (case locate env md content_str of
                                       None \<Rightarrow> (Inl TypeError, w2)
                                     | Some image_urls \<Rightarrow>
                                         (Inr (Some \<lparr>besluit_id = remove_dot_xml (last_segment cu),
                                                     besluit_text = extract_plain_text_from_xml env content_str,
                                                     besluit_metadata = md,
                                                     images = image_urls\<rparr>), w2))))))"

fun process_records :: "env \<Rightarrow> element list \<Rightarrow> besluit list \<Rightarrow> world
    \<Rightarrow> (py_error + besluit list) \<times> world" where
  "process_records env [] all_day_data w = (Inr all_day_data, w)"
| "process_records env (record # records) all_day_data w =
     (case process_record env record w of
        (Inl e, w') \<Rightarrow> (Inl e, w')
      | (Inr None, w') \<Rightarrow> process_records env records all_day_data w'
      | (Inr (Some d), w') \<Rightarrow> process_records env records (all_day_data @ [d]) w')"

definition get_besluiten_for_date :: "env \<Rightarrow> string \<Rightarrow> world \<Rightarrow> (py_error + besluit list) \<times> world" where
  "get_besluiten_for_date env date_str w =
     (case make_rate_limited_request (http_get env) SRU_BASE_URL (sru_params date_str) w of
        (Inl e, w1) \<Rightarrow> (Inl e, w1)
      | (Inr None, w1) \<Rightarrow> (Inr [], w1)
      | (Inr (Some resp), w1) \<Rightarrow>
          if \<not> ok resp then (Inr [], w1)
          else (case fromstring env (content resp) of
                  None \<Rightarrow> (Inr [], w1)
                | Some root \<Rightarrow>
                    (let records = findall_below sru_recordData root in
                     if records = [] then (Inr [], w1)
                     else process_records env records [] w1)))"

section \<open>Materialising a PDF attachment\<close>

definition output_path :: "string \<Rightarrow> string" where
  "output_path besluit_id_str = ''afbeeldingen/'' @ besluit_id_str @ ''_page_1_bijlage.png''"

text \<open>
  Every exception below line 255 is caught (\<^verbatim>\<open>except Exception\<close>) and ends in the final
  \<^verbatim>\<open>return ""\<close>.
\<close>

definition download_en_convert_pdf_bijlage :: "env \<Rightarrow> string \<Rightarrow> string \<Rightarrow> world \<Rightarrow> string \<times> world" where
  "download_en_convert_pdf_bijlage env pdf_exb_code besluit_id_str w =
     (case make_rate_limited_request (http_get env) (pdf_url pdf_exb_code) [] w of
        (Inl e, w1) \<Rightarrow> ([], w1)
      | (Inr None, w1) \<Rightarrow> ([], w1)
      | (Inr (Some resp), w1) \<Rightarrow>
          if ok resp \<and> status_code resp = 200 \<and> length (content resp) > MIN_PDF_SIZE_BYTES then
            (case convert_from_bytes env (content resp) of
               None \<Rightarrow> ([], w1)
             | Some [] \<Rightarrow> ([], w1)
             | Some (page # pages) \<Rightarrow>
                 (case encode_png env page of
                    None \<Rightarrow> ([], w1)
                  | Some img_bytes \<Rightarrow>
                      (case should_download_image env img_bytes of
                         None \<Rightarrow> ([], w1)
                       | Some verdict \<Rightarrow>
                           if verdict then
                             (if save_png env page (output_path besluit_id_str)
                              then (''/'' @ output_path besluit_id_str,
                                    w1\<lparr>saved := saved w1 @ [output_path besluit_id_str]\<rparr>)
                              else ([], w1))
                           else ([], w1))))
          else ([], w1))"

section \<open>Auxiliary notions and sample inputs\<close>

text \<open>The state after one attempt, whichever way the attempt ends.\<close>

fun step_world :: "step \<Rightarrow> world" where
  "step_world (Next w) = w"
| "step_world (Done res w) = w"

text \<open>
  An event after which the loop goes on: a transport exception, or a 429 whose
  Retry-After header is absent, empty, or a non-negative integer number of seconds for
  which \<^verbatim>\<open>time.sleep\<close> returns (\<open>slp\<close> is the \<^const>\<open>sleep_error\<close> of the platform).
\<close>

definition retryable :: "(int \<Rightarrow> py_error option) \<Rightarrow> event \<Rightarrow> bool" where
  "retryable slp ev =
     (case ev of
        RequestException \<Rightarrow> True
      | Response r \<Rightarrow>
          status_code r = 429 \<and>
          (case retry_after r of
             None \<Rightarrow> True
           | Some ra \<Rightarrow>
               ra = [] \<or>
               (case py_int ra of None \<Rightarrow> False | Some n \<Rightarrow> 0 \<le> n \<and> slp (n * 1000) = None)))"

text \<open>
  A platform on which \<^verbatim>\<open>time.sleep\<close> raises an OverflowError for a duration that does not
  fit into 63 bits of nanoseconds, and returns for every other.
\<close>

definition sample_sleep :: "int \<Rightarrow> py_error option" where
  "sample_sleep ms = (if ms > 9223372036854 then Some OverflowError else None)"

text \<open>Sample states, responses and networks.\<close>

definition w_init :: world where
  "w_init = \<lparr>rate_limited = False, last_request_time = 0, successful_requests = 0,
             clock = 0, reqs = 0, saved = [], sleep_error = sample_sleep\<rparr>"

definition w_throttled :: world where
  "w_throttled = \<lparr>rate_limited = True, last_request_time = 0, successful_requests = 4,
             clock = 5000, reqs = 7, saved = [], sleep_error = sample_sleep\<rparr>"

definition resp_200 :: response where
  "resp_200 = \<lparr>status_code = 200, retry_after = None, content = ''<ok/>''\<rparr>"

definition resp_503 :: response where
  "resp_503 = \<lparr>status_code = 503, retry_after = None, content = []\<rparr>"

definition resp_429 :: response where
  "resp_429 = \<lparr>status_code = 429, retry_after = Some ''1'', content = []\<rparr>"

definition resp_429_date :: response where
  "resp_429_date = \<lparr>status_code = 429, retry_after = Some ''Wed, 21 Oct 2015 07:28:00 GMT'', content = []\<rparr>"

definition resp_304 :: response where
  "resp_304 = \<lparr>status_code = 304, retry_after = None, content = []\<rparr>"


definition w_counting :: world where
  "w_counting = \<lparr>rate_limited = False, last_request_time = 0, successful_requests = 2,
             clock = 0, reqs = 0, saved = [], sleep_error = sample_sleep\<rparr>"

definition net_304 :: network where
  "net_304 n url ps = Response resp_304"


definition net_ok :: network where
  "net_ok n url ps = Response resp_200"

definition net_down :: network where
  "net_down n url ps = RequestException"

definition net_flaky :: network where
  "net_flaky n url ps = (if n = 0 then RequestException else if n = 1 then Response resp_429 else Response resp_503)"

definition net_429_date :: network where
  "net_429_date n url ps = Response resp_429_date"

text \<open>
  The entries of a metadata document, as the claims speak of them: an area marking is an
  entry whose name is the reserved one; a scalar entry is any other entry with a non-empty
  name and a non-empty content. \<open>scalar_value\<close> and \<open>sub_value\<close> read the last entry with
  a given name, the one a later assignment to the same dictionary key leaves.
\<close>

definition is_area :: "element \<Rightarrow> bool" where
  "is_area m = (attrib_get m ''name'' = Some ''OVERHEIDop.gebiedsmarkering'')"

definition is_scalar :: "element \<Rightarrow> bool" where
  "is_scalar m =
     (\<not> is_area m \<and>
      (case (attrib_get m ''name'', attrib_get m ''content'') of
         (Some n, Some c) \<Rightarrow> n \<noteq> [] \<and> c \<noteq> []
       | _ \<Rightarrow> False))"

definition scalar_value :: "string \<Rightarrow> element list \<Rightarrow> meta_value option" where
  "scalar_value k ms =
     (let hits = filter (\<lambda>m. is_scalar m \<and> attrib_get m ''name'' = Some k) ms in
      if hits = [] then None
      else (case attrib_get (last hits) ''content'' of
              None \<Rightarrow> None
            | Some c \<Rightarrow> Some (Scalar (strip c))))"

definition sub_value :: "string \<Rightarrow> element list \<Rightarrow> string option option" where
  "sub_value n subs =
     (let hits = filter (\<lambda>s. attrib_get s ''name'' = Some n) subs in
      if hits = [] then None else Some (attrib_get (last hits) ''content''))"

text \<open>A sample metadata tree with two area markings.\<close>

definition area_1 :: element where
  "area_1 = Element ''metadata''
     [(''name'', ''OVERHEIDop.gebiedsmarkering''), (''content'', ''Lijn'')] None
     [Element ''metadata'' [(''name'', ''OVERHEIDop.geometrie''), (''content'', ''POINT(4.88 52.37)'')] None [] None,
      Element ''metadata'' [(''name'', ''OVERHEIDop.geometrieLabel''), (''content'', ''Hoofdweg'')] None [] None]
     None"

definition area_2 :: element where
  "area_2 = Element ''metadata''
     [(''name'', ''OVERHEIDop.gebiedsmarkering''), (''content'', ''Vlak'')] None
     [Element ''metadata'' [(''name'', ''OVERHEIDop.geometrieLabel''), (''content'', ''Dorpsstraat'')] None [] None]
     None"

definition meta_tree :: element where
  "meta_tree = Element ''metadata_gegevens'' [] None
     [Element ''metadata'' [(''name'', ''DC.title''), (''content'', '' Verkeersbesluit Hoofdweg '')] None [] None,
      area_1,
      Element ''metadata'' [(''name'', ''DC.creator'')] None [] None,
      area_2,
      Element ''metadata'' [(''name'', ''OVERHEIDop.externeBijlage''), (''content'', ''exb-2024-1234'')] None [] None]
     None"

text \<open>
  The precondition of claim C7 on the response to the PDF request: it is a 200 with a
  body above the minimum size, the body renders to at least one page, the first page
  encodes, and the classifier's verdict on it is negative.
\<close>

definition renders_negative :: "env \<Rightarrow> response \<Rightarrow> bool" where
  "renders_negative env resp =
     (status_code resp = 200 \<and> length (content resp) > MIN_PDF_SIZE_BYTES \<and>
      (case convert_from_bytes env (content resp) of
         None \<Rightarrow> False
       | Some [] \<Rightarrow> False
       | Some (page # pages) \<Rightarrow>
           (case encode_png env page of
              None \<Rightarrow> False
            | Some img_bytes \<Rightarrow> should_download_image env img_bytes = Some False)))"

text \<open>Sample documents, with the trees \<^verbatim>\<open>ET.fromstring\<close> builds from them.\<close>

definition dq :: string where
  "dq = [CHR 0x22]"

definition doc_two_ill :: string where
  "doc_two_ill = ''<besluit><al>Zie kaart</al><illustratie naam='' @ dq @ ''kaart-1.png'' @ dq @
     ''/><illustratie naam='' @ dq @ ''kaart-2.png'' @ dq @ ''/></besluit>''"

definition tree_two_ill :: element where
  "tree_two_ill = Element ''besluit'' [] None
     [Element ''al'' [] (Some ''Zie kaart'') [] None,
      Element ''illustratie'' [(''naam'', ''kaart-1.png'')] None [] None,
      Element ''illustratie'' [(''naam'', ''kaart-2.png'')] None [] None]
     None"

definition doc_malformed :: string where
  "doc_malformed = ''<besluit><al>Tekst</besluit>''"

definition content_url_1 :: string where
  "content_url_1 =
     ''https://repository.overheid.nl/frbr/officielepublicaties/stcrt/2024/stcrt-2024-1/1/xml/stcrt-2024-1.xml''"

definition metadata_url_1 :: string where
  "metadata_url_1 =
     ''https://repository.overheid.nl/frbr/officielepublicaties/stcrt/2024/stcrt-2024-1/1/metadata/metadata.xml''"

definition sru_body :: string where
  "sru_body =
     ''<sru:searchRetrieveResponse xmlns:sru='' @ dq @
     ''http://docs.oasis-open.org/ns/search-ws/sruResponse'' @ dq @ '' xmlns:gzd='' @ dq @
     ''http://standaarden.overheid.nl/sru'' @ dq @
     ''><sru:numberOfRecords>1</sru:numberOfRecords><sru:records><sru:record><sru:recordData>'' @
     ''<gzd:gzd><gzd:enrichedData><gzd:itemUrl manifestation='' @ dq @ ''metadata'' @ dq @ ''>'' @
     metadata_url_1 @ ''</gzd:itemUrl><gzd:itemUrl manifestation='' @ dq @ ''xml'' @ dq @ ''>'' @
     content_url_1 @ ''</gzd:itemUrl></gzd:enrichedData></gzd:gzd></sru:recordData></sru:record>'' @
     ''</sru:records></sru:searchRetrieveResponse>''"

definition sru_ns :: string where
  "sru_ns = ''{http://docs.oasis-open.org/ns/search-ws/sruResponse}''"

definition gzd_ns :: string where
  "gzd_ns = ''{http://standaarden.overheid.nl/sru}''"

definition sru_record :: element where
  "sru_record =
     Element (sru_ns @ ''recordData'') [] None
       [Element (gzd_ns @ ''gzd'') [] None
         [Element (gzd_ns @ ''enrichedData'') [] None
           [Element (gzd_ns @ ''itemUrl'') [(''manifestation'', ''metadata'')] (Some metadata_url_1) [] None,
            Element (gzd_ns @ ''itemUrl'') [(''manifestation'', ''xml'')] (Some content_url_1) [] None]
           None]
         None]
       None"

definition sru_tree :: element where
  "sru_tree =
     Element (sru_ns @ ''searchRetrieveResponse'') [] None
       [Element (sru_ns @ ''numberOfRecords'') [] (Some ''1'') [] None,
        Element (sru_ns @ ''records'') [] None
          [Element (sru_ns @ ''record'') [] None [sru_record] None]
          None]
       None"

definition sru_empty_body :: string where
  "sru_empty_body =
     ''<sru:searchRetrieveResponse xmlns:sru='' @ dq @
     ''http://docs.oasis-open.org/ns/search-ws/sruResponse'' @ dq @
     ''><sru:numberOfRecords>0</sru:numberOfRecords></sru:searchRetrieveResponse>''"

definition sru_empty_tree :: element where
  "sru_empty_tree =
     Element (sru_ns @ ''searchRetrieveResponse'') [] None
       [Element (sru_ns @ ''numberOfRecords'') [] (Some ''0'') [] None]
       None"

definition doc_charref :: string where
  "doc_charref = ''<besluit><al>parkeer&#112;laats</al></besluit>''"

definition tree_charref :: element where
  "tree_charref = Element ''besluit'' [] None [Element ''al'' [] (Some ''parkeerplaats'') [] None] None"

definition doc_keyword :: string where
  "doc_keyword = ''<besluit><al>Geen ParkeerPlaats hier</al></besluit>''"

definition tree_keyword :: element where
  "tree_keyword = Element ''besluit'' [] None [Element ''al'' [] (Some ''Geen ParkeerPlaats hier'') [] None] None"

definition meta_body :: string where
  "meta_body =
     ''<metadata_gegevens><metadata name='' @ dq @ ''DC.title'' @ dq @ '' content='' @ dq @
     '' Verkeersbesluit Hoofdweg '' @ dq @ ''/><metadata name='' @ dq @
     ''OVERHEIDop.gebiedsmarkering'' @ dq @ '' content='' @ dq @ ''Lijn'' @ dq @
     ''><metadata name='' @ dq @ ''OVERHEIDop.geometrie'' @ dq @ '' content='' @ dq @
     ''POINT(4.88 52.37)'' @ dq @ ''/><metadata name='' @ dq @ ''OVERHEIDop.geometrieLabel'' @ dq @
     '' content='' @ dq @ ''Hoofdweg'' @ dq @ ''/></metadata><metadata name='' @ dq @
     ''DC.creator'' @ dq @ ''/><metadata name='' @ dq @ ''OVERHEIDop.gebiedsmarkering'' @ dq @
     '' content='' @ dq @ ''Vlak'' @ dq @ ''><metadata name='' @ dq @
     ''OVERHEIDop.geometrieLabel'' @ dq @ '' content='' @ dq @ ''Dorpsstraat'' @ dq @
     ''/></metadata><metadata name='' @ dq @ ''OVERHEIDop.externeBijlage'' @ dq @ '' content='' @ dq @
     ''exb-2024-1234'' @ dq @ ''/></metadata_gegevens>''"

definition meta_malformed :: string where
  "meta_malformed =
     ''<metadata_gegevens><metadata name='' @ dq @ ''DC.title'' @ dq @ '' content='' @ dq @
     ''Verkeersbesluit'' @ dq @ ''></metadata_gegevens>''"

text \<open>
  \<^verbatim>\<open>ET.fromstring\<close> on the sample documents; \<open>doc_malformed\<close> and \<open>meta_malformed\<close> have
  a mismatched end tag and are not in the table.
\<close>

definition sample_fromstring :: "string \<Rightarrow> element option" where
  "sample_fromstring s =
     (if s = sru_body then Some sru_tree
      else if s = sru_empty_body then Some sru_empty_tree
      else if s = doc_two_ill then Some tree_two_ill
      else if s = doc_charref then Some tree_charref
      else if s = doc_keyword then Some tree_keyword
      else if s = meta_body then Some meta_tree
      else None)"

text \<open>
  A site that answers the search request, the request for the content of the one record
  and the request for its metadata with the three given responses.
\<close>

definition resp_ok :: "string \<Rightarrow> response" where
  "resp_ok body = \<lparr>status_code = 200, retry_after = None, content = body\<rparr>"

definition resp_404 :: response where
  "resp_404 = \<lparr>status_code = 404, retry_after = None, content = []\<rparr>"

definition site :: "response \<Rightarrow> response \<Rightarrow> response \<Rightarrow> network" where
  "site search_resp doc_resp meta_resp n url ps =
     (if url = SRU_BASE_URL then Response search_resp
      else if url = content_url_1 then Response doc_resp
      else if url = metadata_url_1 then Response meta_resp
      else Response resp_404)"

definition sample_env :: "response \<Rightarrow> response \<Rightarrow> response \<Rightarrow> env" where
  "sample_env search_resp doc_resp meta_resp =
     \<lparr>http_get = site search_resp doc_resp meta_resp, fromstring = sample_fromstring,
      decode = (\<lambda>b. b), convert_from_bytes = (\<lambda>b. None), encode_png = (\<lambda>p. None),
      should_download_image = (\<lambda>b. None), save_png = (\<lambda>p path. False)\<rparr>"

definition pdf_bytes :: string where
  "pdf_bytes = ''%PDF-1.4'' @ replicate 60000 (CHR ''0'')"

definition net_pdf :: network where
  "net_pdf n url ps =
     (if url = pdf_url ''exb-2024-1234''
      then Response \<lparr>status_code = 200, retry_after = None, content = pdf_bytes\<rparr>
      else Response \<lparr>status_code = 404, retry_after = None, content = []\<rparr>)"

definition env_pdf :: env where
  "env_pdf = \<lparr>http_get = net_pdf, fromstring = sample_fromstring, decode = (\<lambda>b. b),
     convert_from_bytes = (\<lambda>b. if b = pdf_bytes then Some [''page 1'', ''page 2''] else None),
     encode_png = (\<lambda>p. Some (''PNG:'' @ p)),
     should_download_image = (\<lambda>b. Some False),
     save_png = (\<lambda>p path. True)\<rparr>"

text \<open>
  The run for \<open>date_str\<close> from the state \<open>w\<close> reaches the record \<open>rcd\<close> of the search
  result: the search request was answered with \<^verbatim>\<open>response.ok\<close>, the answer parsed, \<open>rcd\<close>
  stands in it between the records \<open>pre\<close> and \<open>post\<close>, and the loop over \<open>pre\<close> has ended
  with the list \<open>acc\<close> in the state \<open>wa\<close>.
\<close>

definition reached :: "env \<Rightarrow> string \<Rightarrow> world \<Rightarrow> element list \<Rightarrow> element \<Rightarrow> element list
    \<Rightarrow> besluit list \<Rightarrow> world \<Rightarrow> bool" where
  "reached env date_str w pre rcd post acc wa =
     (case make_rate_limited_request (http_get env) SRU_BASE_URL (sru_params date_str) w of
        (Inr (Some resp), w1) \<Rightarrow>
          ok resp \<and>
          (case fromstring env (content resp) of
             Some root \<Rightarrow>
               findall_below sru_recordData root = pre @ rcd # post \<and>
               process_records env pre [] w1 = (Inr acc, wa)
           | None \<Rightarrow> False)
      | _ \<Rightarrow> False)"

text \<open>
  The sample site that serves the document with two illustrations and the sample metadata
  document, and the record the run assembles from them.
\<close>

definition env_full :: env where
  "env_full = sample_env (resp_ok sru_body) (resp_ok doc_two_ill) (resp_ok meta_body)"

definition besluit_full :: besluit where
  "besluit_full =
     \<lparr>besluit_id = ''stcrt-2024-1'', besluit_text = ''Zie kaart'',
      besluit_metadata =
        [(''DC.title'', Scalar ''Verkeersbesluit Hoofdweg''),
         (''OVERHEIDop.externeBijlage'', Scalar ''exb-2024-1234''),
         (''OVERHEIDop.gebiedsmarkering'',
            Areas [[(''type'', Some ''Lijn''), (''geometrie'', Some ''POINT(4.88 52.37)''), (''label'', Some ''Hoofdweg'')],
                   [(''type'', Some ''Vlak''), (''label'', Some ''Dorpsstraat'')]])],
      images =
        [''https://repository.officiele-overheidspublicaties.nl/externebijlagen/exb-2024-1234/1/bijlage/exb-2024-1234.pdf'',
         ''https://zoek.officielebekendmakingen.nl/kaart-1.png'',
         ''https://zoek.officielebekendmakingen.nl/kaart-2.png'']\<rparr>"

text \<open>The sample site whose one document has a mismatched end tag and no metadata.\<close>

definition env_malformed :: env where
  "env_malformed = sample_env (resp_ok sru_body) (resp_ok doc_malformed) resp_404"

section \<open>The HTTP route (api.py)\<close>

text \<open>
  The strings the route is studied on are the ASCII strings: there \<^verbatim>\<open>\d\<close> is
  \<^verbatim>\<open>[0-9]\<close>, which is \<^const>\<open>is_digit\<close>. (On other strings \<^verbatim>\<open>\d\<close> also matches the decimal
  digits of other scripts, which \<^verbatim>\<open>int\<close> reads as well.)
\<close>

definition ascii :: "string \<Rightarrow> bool" where
  "ascii s = list_all (\<lambda>c. (of_char c :: nat) < 128) s"

text \<open>
  The path parameter of the route is declared with the regular expression
  \<^verbatim>\<open>^\d{4}-\d{2}-\d{2}$\<close>; a path that does not match is answered with status 422 before
  the body of the route runs. With Python's \<^verbatim>\<open>re.match\<close> the final \<^verbatim>\<open>$\<close> also matches
  before one trailing newline; such a string then fails at \<^verbatim>\<open>strptime\<close>.
\<close>

definition path_regex_ok :: "string \<Rightarrow> bool" where
  "path_regex_ok s =
     (case s of
        y1 # y2 # y3 # y4 # h1 # m1 # m2 # h2 # d1 # d2 # t \<Rightarrow>
          is_digit y1 \<and> is_digit y2 \<and> is_digit y3 \<and> is_digit y4 \<and> h1 = CHR ''-'' \<and>
          is_digit m1 \<and> is_digit m2 \<and> h2 = CHR ''-'' \<and> is_digit d1 \<and> is_digit d2 \<and>
          (t = [] \<or> t = [CHR 0x0A])
      | _ \<Rightarrow> False)"

definition digit_nat :: "char \<Rightarrow> nat" where
  "digit_nat c = of_char c - 48"

text \<open>
  \<^verbatim>\<open>datetime.strptime(s, "%Y-%m-%d")\<close>. The format becomes the regular expression
  \<^verbatim>\<open>(?P<Y>\d\d\d\d)-(?P<m>1[0-2]|0[1-9]|[1-9])-(?P<d>3[0-1]|[1-2]\d|0[1-9]|[1-9]| [1-9])\<close>,
  matched at the start of the string. \<open>month_alts\<close> and \<open>day_alts\<close> list the ways the group
  can match, in the order of its alternatives, each with the rest of the string.
\<close>

definition month_alts :: "string \<Rightarrow> (nat \<times> string) list" where
  "month_alts s =
     (case s of
        a # b # r \<Rightarrow>
          (if a = CHR ''1'' \<and> b \<in> set ''012'' then [(10 + digit_nat b, r)] else []) @
          (if a = CHR ''0'' \<and> b \<in> set ''123456789'' then [(digit_nat b, r)] else [])
      | _ \<Rightarrow> []) @
     (case s of
        a # r \<Rightarrow> if a \<in> set ''123456789'' then [(digit_nat a, r)] else []
      | [] \<Rightarrow> [])"

definition day_alts :: "string \<Rightarrow> (nat \<times> string) list" where
  "day_alts s =
     (case s of
        a # b # r \<Rightarrow>
          (if a = CHR ''3'' \<and> b \<in> set ''01'' then [(30 + digit_nat b, r)] else []) @
          (if a \<in> set ''12'' \<and> is_digit b then [(10 * digit_nat a + digit_nat b, r)] else []) @
          (if a = CHR ''0'' \<and> b \<in> set ''123456789'' then [(digit_nat b, r)] else [])
      | _ \<Rightarrow> []) @
     (case s of
        a # r \<Rightarrow> if a \<in> set ''123456789'' then [(digit_nat a, r)] else []
      | [] \<Rightarrow> []) @
     (case s of
        a # b # r \<Rightarrow> if a = CHR '' '' \<and> b \<in> set ''123456789'' then [(digit_nat b, r)] else []
      | _ \<Rightarrow> [])"

text \<open>The hyphen after the month, then the day: all the ways to go on after one month match.\<close>

definition after_month :: "nat \<times> string \<Rightarrow> ((nat \<times> nat) \<times> string) list" where
  "after_month mr =
     (case snd mr of
        [] \<Rightarrow> []
      | h # r \<Rightarrow> if h = CHR ''-'' then map (\<lambda>dr. ((fst mr, fst dr), snd dr)) (day_alts r) else [])"

text \<open>The match the regular expression engine finds: the first in the order of the alternatives.\<close>

definition match_Ymd :: "string \<Rightarrow> ((nat \<times> nat \<times> nat) \<times> string) option" where
  "match_Ymd s =
     (case s of
        y1 # y2 # y3 # y4 # h # r \<Rightarrow>
          if is_digit y1 \<and> is_digit y2 \<and> is_digit y3 \<and> is_digit y4 \<and> h = CHR ''-''
          then (case concat (map after_month (month_alts r)) of
                  [] \<Rightarrow> None
                | md # _ \<Rightarrow>
                    Some ((1000 * digit_nat y1 + 100 * digit_nat y2 + 10 * digit_nat y3 + digit_nat y4,
                           fst (fst md), snd (fst md)), snd md))
          else None
      | _ \<Rightarrow> None)"

definition is_leap :: "nat \<Rightarrow> bool" where
  "is_leap y = (y mod 4 = 0 \<and> (y mod 100 \<noteq> 0 \<or> y mod 400 = 0))"

definition days_in_month :: "nat \<Rightarrow> nat \<Rightarrow> nat" where
  "days_in_month y m =
     (if m = 2 then (if is_leap y then 29 else 28)
      else if m = 4 \<or> m = 6 \<or> m = 9 \<or> m = 11 then 30
      else 31)"

text \<open>
  \<open>None\<close> is the ValueError: the string does not match the format, unconverted data
  remains, or the date does not exist (year 0 included).
\<close>

definition strptime_Ymd :: "string \<Rightarrow> (nat \<times> nat \<times> nat) option" where
  "strptime_Ymd s =
     (case match_Ymd s of
        None \<Rightarrow> None
      | Some (ymd, rest) \<Rightarrow>
          if rest \<noteq> [] then None
          else (case ymd of (y, m, d) \<Rightarrow>
                  if 1 \<le> y \<and> d \<le> days_in_month y m then Some (y, m, d) else None))"

text \<open>Lines 104 to 120: the first image of a record, when it is a PDF, is materialised.\<close>

definition convert_first_image :: "env \<Rightarrow> besluit \<Rightarrow> world \<Rightarrow> besluit \<times> world" where
  "convert_first_image env besluit w =
     (case images besluit of
        [] \<Rightarrow> (besluit, w)
      | pdf_url_str # others \<Rightarrow>
          if contains ''externebijlagen'' pdf_url_str then
            (case re_search_exb pdf_url_str of
               None \<Rightarrow> (besluit, w)
             | Some pdf_exb_code \<Rightarrow>
                 (case download_en_convert_pdf_bijlage env pdf_exb_code (besluit_id besluit) w of
                    (image_url, w1) \<Rightarrow>
                      if image_url \<noteq> [] then (besluit\<lparr>images := image_url # others\<rparr>, w1)
                      else (besluit\<lparr>images := []\<rparr>, w1)))
          else (besluit, w))"

fun convert_images :: "env \<Rightarrow> besluit list \<Rightarrow> world \<Rightarrow> besluit list \<times> world" where
  "convert_images env [] w = ([], w)"
| "convert_images env (besluit # besluiten) w =
     (case convert_first_image env besluit w of
        (b, w1) \<Rightarrow> (case convert_images env besluiten w1 of (bs, w2) \<Rightarrow> (b # bs, w2)))"

text \<open>
  What the route answers: an error status (422 from the path validation, 400 from the
  check of the date, 500 for an exception of the pipeline), the 404 for an empty result,
  or the list of records.
\<close>

datatype route_result = HTTP_error nat | Not_found | Besluiten "besluit list"

definition get_besluiten_by_date :: "env \<Rightarrow> string \<Rightarrow> world \<Rightarrow> route_result \<times> world" where
  "get_besluiten_by_date env date_str w =
     (if \<not> path_regex_ok date_str then (HTTP_error 422, w)
      else if strptime_Ymd date_str = None then (HTTP_error 400, w)
      else (case get_besluiten_for_date env date_str w of
              (Inl e, w1) \<Rightarrow> (HTTP_error 500, w1)
            | (Inr besluiten_data, w1) \<Rightarrow>
                if besluiten_data = [] then (Not_found, w1)
                else (case convert_images env besluiten_data w1 of
                        (data, w2) \<Rightarrow> (Besluiten data, w2))))"

text \<open>
  The strict calendar-date shape of the claims: four digits, a hyphen, two digits, a
  hyphen, two digits, and nothing else, naming a day that exists (years from 1 on).
\<close>

definition strict_date :: "string \<Rightarrow> bool" where
  "strict_date s =
     (case s of
        [y1, y2, y3, y4, h1, m1, m2, h2, d1, d2] \<Rightarrow>
          is_digit y1 \<and> is_digit y2 \<and> is_digit y3 \<and> is_digit y4 \<and> h1 = CHR ''-'' \<and>
          is_digit m1 \<and> is_digit m2 \<and> h2 = CHR ''-'' \<and> is_digit d1 \<and> is_digit d2 \<and>
          (let y = 1000 * digit_nat y1 + 100 * digit_nat y2 + 10 * digit_nat y3 + digit_nat y4;
               m = 10 * digit_nat m1 + digit_nat m2;
               d = 10 * digit_nat d1 + digit_nat d2
           in 1 \<le> y \<and> 1 \<le> m \<and> m \<le> 12 \<and> 1 \<le> d \<and> d \<le> days_in_month y m)
      | _ \<Rightarrow> False)"

section \<open>The fetcher: counting attempts and successes\<close>

declare attempts_from.simps [simp del]

lemma reqs_sleep [simp]: "reqs (sleep d w) = reqs w"
  by (simp add: sleep_def)

lemma reqs_wait_before [simp]: "reqs (wait_before a w) = reqs w"
  by (simp add: wait_before_def Let_def)

lemma sleep_error_sleep [simp]: "sleep_error (sleep d w) = sleep_error w"
  by (simp add: sleep_def)

lemma sleep_error_wait_before [simp]: "sleep_error (wait_before a w) = sleep_error w"
  by (simp add: wait_before_def Let_def)

lemma counters_wait_before [simp]:
  "rate_limited (wait_before a w) = rate_limited w"
  "successful_requests (wait_before a w) = successful_requests w"
  by (simp_all add: wait_before_def Let_def sleep_def)

lemma reqs_on_response: "reqs (step_world (on_response r w)) = reqs w"
  by (simp add: on_response_def Let_def sleep_def split: option.splits)

lemma reqs_attempt_step: "reqs (step_world (attempt_step net url ps a w)) = Suc (reqs w)"
  by (simp add: attempt_step_def Let_def reqs_on_response split: event.splits)

lemma sleep_error_on_response: "sleep_error (step_world (on_response r w)) = sleep_error w"
  by (simp add: on_response_def Let_def sleep_def split: option.splits)

lemma sleep_error_attempt_step:
  "sleep_error (step_world (attempt_step net url ps a w)) = sleep_error w"
  by (simp add: attempt_step_def Let_def sleep_error_on_response split: event.splits)


lemma reqs_attempts_from_lower:
  "reqs w \<le> reqs (snd (attempts_from net url ps a w)) \<and>
   (a < MAX_RETRIES + 1 \<longrightarrow> reqs w < reqs (snd (attempts_from net url ps a w)))"
proof (induction net url ps a w rule: attempts_from.induct)
  case (1 net url ps attempt w)
  show ?case
  proof (cases "attempt < MAX_RETRIES + 1")
    case False
    then show ?thesis by (subst (1 2) attempts_from.simps) simp
  next
    case True
    show ?thesis
    proof (cases "attempt_step net url ps attempt w")
      case (Next w')
      have "reqs w' = Suc (reqs w)"
        using reqs_attempt_step [of net url ps attempt w] Next by simp
      moreover have "reqs w' \<le> reqs (snd (attempts_from net url ps (Suc attempt) w'))"
        using "1.IH" [OF True Next] by simp
      ultimately show ?thesis
        using True Next by (subst (1 2) attempts_from.simps) simp
    next
      case (Done res w')
      have "reqs w' = Suc (reqs w)"
        using reqs_attempt_step [of net url ps attempt w] Done by simp
      then show ?thesis
        using True Done by (subst (1 2) attempts_from.simps) simp
    qed
  qed
qed

lemma reqs_fetch_lower: "reqs w < reqs (snd (make_rate_limited_request net url ps w))"
  using reqs_attempts_from_lower [of w net url ps 0]
  by (simp add: make_rate_limited_request_def MAX_RETRIES_def)

lemma not_429_step:
  assumes "net (reqs w) url ps = Response r" "status_code r \<noteq> 429"
  shows "\<exists>w'. attempt_step net url ps a w = Done (Inr (Some r)) w' \<and> reqs w' = Suc (reqs w)"
  using assms by (simp add: attempt_step_def on_response_def Let_def)

lemma retryable_step:
  assumes "retryable (sleep_error w) (net (reqs w) url ps)"
  shows "(\<exists>w'. attempt_step net url ps a w = Next w' \<and> reqs w' = Suc (reqs w) \<and>
               sleep_error w' = sleep_error w) \<or>
         (a = MAX_RETRIES \<and> (\<exists>w'. attempt_step net url ps a w = Done (Inr None) w' \<and> reqs w' = Suc (reqs w)))"
  using assms
  by (auto simp add: retryable_def attempt_step_def on_response_def Let_def sleep_def
      split: event.splits option.splits)

lemma retryable_next:
  assumes "retryable (sleep_error w) (net (reqs w) url ps)" "a < MAX_RETRIES"
  shows "\<exists>w'. attempt_step net url ps a w = Next w' \<and> reqs w' = Suc (reqs w) \<and>
              sleep_error w' = sleep_error w"
  using retryable_step [of w net url ps a] assms by auto

lemma retried_then_returned:
  "a + k \<le> MAX_RETRIES \<Longrightarrow> (\<forall>i < k. retryable (sleep_error w) (net (reqs w + i) url ps)) \<Longrightarrow>
   net (reqs w + k) url ps = Response r \<Longrightarrow> status_code r \<noteq> 429 \<Longrightarrow>
   fst (attempts_from net url ps a w) = Inr (Some r) \<and>
   reqs (snd (attempts_from net url ps a w)) = reqs w + k + 1"
proof (induction k arbitrary: a w)
  case 0
  from not_429_step [of net w url ps r a] 0 obtain w' where
    "attempt_step net url ps a w = Done (Inr (Some r)) w'" "reqs w' = Suc (reqs w)" by auto
  with 0 show ?case by (subst (1 2) attempts_from.simps) simp
next
  case (Suc k)
  have "retryable (sleep_error w) (net (reqs w) url ps)"
    using Suc.prems(2) [rule_format, of 0] by simp
  moreover have "a < MAX_RETRIES" using Suc.prems(1) by simp
  ultimately obtain w' where st: "attempt_step net url ps a w = Next w'"
    and rq: "reqs w' = Suc (reqs w)" and sl: "sleep_error w' = sleep_error w"
    using retryable_next by blast
  have "\<forall>i < k. retryable (sleep_error w') (net (reqs w' + i) url ps)"
  proof (intro allI impI)
    fix i assume "i < k"
    then have "Suc i < Suc k" by simp
    from Suc.prems(2) [rule_format, OF this]
    show "retryable (sleep_error w') (net (reqs w' + i) url ps)"
      by (simp add: rq sl)
  qed
  moreover have "net (reqs w' + k) url ps = Response r" using Suc.prems(3) by (simp add: rq)
  moreover have "Suc a + k \<le> MAX_RETRIES" using Suc.prems(1) by simp
  ultimately have "fst (attempts_from net url ps (Suc a) w') = Inr (Some r) \<and>
      reqs (snd (attempts_from net url ps (Suc a) w')) = reqs w' + k + 1"
    using Suc.IH [of "Suc a" w'] Suc.prems(4) by blast
  then show ?case using st rq \<open>a < MAX_RETRIES\<close>
    by (subst (1 2) attempts_from.simps) simp
qed


lemmas eval_fetch = make_rate_limited_request_def attempts_from.simps MAX_RETRIES_def
  attempt_step_def wait_before_def on_response_def ok_def sleep_def Let_def
  REQUEST_DELAY_def RETRY_DELAY_MULTIPLIER_def SUCCESSFUL_REQUESTS_TO_RESET_def
  py_int_def strip_def is_space_def py_unsigned_def is_digit_def digit_val_def
  int_max_str_digits_def sample_sleep_def

text \<open>
  Claim C2, as amended. After an attempt that receives a response with \<^verbatim>\<open>response.ok\<close>
  (every status outside 400..599: every 2xx, and every 1xx and 3xx as well), the counter of
  consecutive successes is one more than before, except that when the throttle is on and
  the incremented counter reaches \<^const>\<open>SUCCESSFUL_REQUESTS_TO_RESET\<close> the counter is reset
  to 0 and the throttle is cleared (lines 76 to 80). After a response with a status in
  400..599 (429 included) or a transport exception the counter is 0. Both hold whether
  or not the throttle is on. The throttle is switched on by a 429, and cleared only at
  that reset; every other attempt leaves it as it was.
\<close>

theorem counter_after_attempt:
  "successful_requests (step_world (attempt_step net url ps attempt w)) =
     (case net (reqs w) url ps of
        Response r \<Rightarrow>
          if ok r
          then (if rate_limited w \<and> SUCCESSFUL_REQUESTS_TO_RESET \<le> successful_requests w + 1
                then 0 else successful_requests w + 1)
          else 0
      | RequestException \<Rightarrow> 0) \<and>
   rate_limited (step_world (attempt_step net url ps attempt w)) =
     (case net (reqs w) url ps of
        Response r \<Rightarrow>
          if status_code r = 429 then True
          else if ok r
          then (if rate_limited w \<and> SUCCESSFUL_REQUESTS_TO_RESET \<le> successful_requests w + 1
                then False else rate_limited w)
          else rate_limited w
      | RequestException \<Rightarrow> rate_limited w)"
  by (auto simp add: attempt_step_def on_response_def Let_def ok_def sleep_def
      split: event.splits option.splits)

text \<open>
  The amended claim C2 at five attempts: a 200 under throttle with four successes
  counted (the reset), a 200 without throttle, a 304 with two successes counted, a 503
  under throttle, and a transport exception under throttle.
\<close>

theorem counter_after_attempt_witness:
  "successful_requests (step_world (attempt_step net_ok ''u'' [] 0 w_throttled)) = 0 \<and>
   \<not> rate_limited (step_world (attempt_step net_ok ''u'' [] 0 w_throttled)) \<and>
   successful_requests (step_world (attempt_step net_ok ''u'' [] 0 w_init)) = 1 \<and>
   \<not> rate_limited (step_world (attempt_step net_ok ''u'' [] 0 w_init)) \<and>
   successful_requests (step_world (attempt_step net_304 ''u'' [] 0 w_counting)) = 3 \<and>
   net_flaky (reqs w_throttled) ''u'' [] = Response resp_503 \<and>
   successful_requests (step_world (attempt_step net_flaky ''u'' [] 0 w_throttled)) = 0 \<and>
   rate_limited (step_world (attempt_step net_flaky ''u'' [] 0 w_throttled)) \<and>
   net_down (reqs w_throttled) ''u'' [] = RequestException \<and>
   successful_requests (step_world (attempt_step net_down ''u'' [] 0 w_throttled)) = 0 \<and>
   rate_limited (step_world (attempt_step net_down ''u'' [] 0 w_throttled))"
  using counter_after_attempt [of net_ok "''u''" "[]" 0 w_throttled]
    counter_after_attempt [of net_ok "''u''" "[]" 0 w_init]
    counter_after_attempt [of net_304 "''u''" "[]" 0 w_counting]
    counter_after_attempt [of net_flaky "''u''" "[]" 0 w_throttled]
    counter_after_attempt [of net_down "''u''" "[]" 0 w_throttled]
  by (simp add: net_ok_def net_304_def net_flaky_def net_down_def resp_200_def resp_304_def
      resp_503_def w_throttled_def w_init_def w_counting_def ok_def
      SUCCESSFUL_REQUESTS_TO_RESET_def)

text \<open>
  Claim C2 as stated fails, in two ways. With the throttle on and four successes counted,
  a 200 response leaves the counter at 0, not at 5. And a 304, which is not a 2xx, does
  not reset the counter: with two successes counted it leaves the counter at 3.
\<close>

theorem counter_reset_counterexample:
  "fst (make_rate_limited_request net_ok ''u'' [] w_throttled) = Inr (Some resp_200) \<and>
   status_code resp_200 = 200 \<and>
   successful_requests w_throttled = 4 \<and>
   successful_requests (snd (make_rate_limited_request net_ok ''u'' [] w_throttled)) = 0 \<and>
   fst (make_rate_limited_request net_304 ''u'' [] w_counting) = Inr (Some resp_304) \<and>
   status_code resp_304 = 304 \<and>
   successful_requests w_counting = 2 \<and>
   successful_requests (snd (make_rate_limited_request net_304 ''u'' [] w_counting)) = 3"
  by (simp add: eval_fetch net_ok_def net_304_def resp_200_def resp_304_def w_throttled_def
      w_counting_def)

text \<open>
  Claim C3 fails on the code: a 429 response whose Retry-After header is an HTTP date
  makes \<^verbatim>\<open>int(retry_after)\<close> raise a ValueError at line 66, which the handler for
  \<^verbatim>\<open>requests.RequestException\<close> at line 87 does not catch.
\<close>

theorem retry_after_date_raises:
  "fst (make_rate_limited_request net_429_date ''u'' [] w_init) = Inl ValueError"
  by (simp add: eval_fetch net_429_date_def resp_429_date_def w_init_def)



section \<open>The metadata parser\<close>

lemma sub_value_snoc:
  "sub_value n (xs @ [x]) =
     (if attrib_get x ''name'' = Some n then Some (attrib_get x ''content'') else sub_value n xs)"
  by (simp add: sub_value_def Let_def)

lemma scalar_value_snoc:
  "scalar_value k (xs @ [x]) =
     (if is_scalar x \<and> attrib_get x ''name'' = Some k
      then (case attrib_get x ''content'' of None \<Rightarrow> None | Some c \<Rightarrow> Some (Scalar (strip c)))
      else scalar_value k xs)"
  by (simp add: scalar_value_def Let_def)

lemma gebied_fold:
  "map_of (foldl sub_step [(''type'', c)] subs) ''type'' = Some c \<and>
   map_of (foldl sub_step [(''type'', c)] subs) ''geometrie'' = sub_value ''OVERHEIDop.geometrie'' subs \<and>
   map_of (foldl sub_step [(''type'', c)] subs) ''label'' = sub_value ''OVERHEIDop.geometrieLabel'' subs"
proof (induction subs rule: rev_induct)
  case Nil
  show ?case by (simp add: sub_value_def)
next
  case (snoc x xs)
  then show ?case
    by (simp add: sub_value_snoc sub_step_def Let_def update_conv')
qed

lemma meta_fold_snd:
  "snd (foldl meta_step acc ms) = snd acc @ map gebied_of (filter is_area ms)"
  by (induction ms arbitrary: acc)
     (simp_all add: meta_step_def is_area_def Let_def split: option.splits prod.splits)

lemma meta_fold_fst:
  "map_of (fst (foldl meta_step ([], []) ms)) k = scalar_value k ms"
proof (induction ms rule: rev_induct)
  case Nil
  show ?case by (simp add: scalar_value_def)
next
  case (snoc x xs)
  then show ?case
    by (auto simp add: scalar_value_snoc meta_step_def is_scalar_def is_area_def Let_def update_conv'
        split: option.splits)
qed

lemma scalar_value_reserved: "scalar_value ''OVERHEIDop.gebiedsmarkering'' ms = None"
proof -
  have "filter (\<lambda>m. is_scalar m \<and> attrib_get m ''name'' = Some ''OVERHEIDop.gebiedsmarkering'') ms = []"
    by (auto simp add: filter_empty_conv is_scalar_def is_area_def)
  then show ?thesis by (simp add: scalar_value_def)
qed

lemma parse_metadata_lookup:
  "map_of (parse_metadata_block root) k =
     (if k = ''OVERHEIDop.gebiedsmarkering''
      then (if filter is_area (findall ''metadata'' root) = [] then None
            else Some (Areas (map gebied_of (filter is_area (findall ''metadata'' root)))))
      else scalar_value k (findall ''metadata'' root))"
  by (simp add: parse_metadata_block_def Let_def meta_fold_snd meta_fold_fst update_conv'
      scalar_value_reserved)

text \<open>
  Claim C9. When the metadata document has exactly two area-marking entries \<open>a1\<close>, \<open>a2\<close>
  (in source order), the reserved key holds exactly the two area markings of \<open>a1\<close> and \<open>a2\<close>
  in that order. The area marking of an entry has as type the entry's own content, and as
  geometry and label the content of its (last) child named \<^verbatim>\<open>OVERHEIDop.geometrie\<close> and
  \<^verbatim>\<open>OVERHEIDop.geometrieLabel\<close>; the key is absent without such a child. Every other key
  holds the stripped content of the last scalar entry with that name, and is absent when
  there is none: entries without name or content leave no trace.
\<close>

theorem parse_metadata_two_areas:
  assumes "filter is_area (findall ''metadata'' root) = [a1, a2]"
  shows "map_of (parse_metadata_block root) ''OVERHEIDop.gebiedsmarkering''
           = Some (Areas [gebied_of a1, gebied_of a2]) \<and>
         (\<forall>a. map_of (gebied_of a) ''type'' = Some (attrib_get a ''content'') \<and>
              map_of (gebied_of a) ''geometrie''
                = sub_value ''OVERHEIDop.geometrie'' (findall ''metadata'' a) \<and>
              map_of (gebied_of a) ''label''
                = sub_value ''OVERHEIDop.geometrieLabel'' (findall ''metadata'' a)) \<and>
         (\<forall>k. k \<noteq> ''OVERHEIDop.gebiedsmarkering'' \<longrightarrow>
              map_of (parse_metadata_block root) k = scalar_value k (findall ''metadata'' root))"
  using assms by (simp add: parse_metadata_lookup gebied_of_def gebied_fold)

lemmas eval_meta = findall_def attrib_get_def is_area_def is_scalar_def scalar_value_def
  sub_value_def gebied_of_def sub_step_def meta_step_def parse_metadata_block_def Let_def
  strip_def is_space_def

text \<open>
  Claim C9 on the sample tree: two area markings around other entries, a title with
  surrounding blanks, and an entry without content.
\<close>

theorem parse_metadata_two_areas_witness:
  "parse_metadata_block meta_tree =
     [(''DC.title'', Scalar ''Verkeersbesluit Hoofdweg''),
      (''OVERHEIDop.externeBijlage'', Scalar ''exb-2024-1234''),
      (''OVERHEIDop.gebiedsmarkering'',
         Areas [[(''type'', Some ''Lijn''), (''geometrie'', Some ''POINT(4.88 52.37)''), (''label'', Some ''Hoofdweg'')],
                [(''type'', Some ''Vlak''), (''label'', Some ''Dorpsstraat'')]])] \<and>
   map_of (parse_metadata_block meta_tree) ''OVERHEIDop.gebiedsmarkering''
     = Some (Areas [gebied_of area_1, gebied_of area_2]) \<and>
   map_of (parse_metadata_block meta_tree) ''DC.title'' = Some (Scalar ''Verkeersbesluit Hoofdweg'') \<and>
   map_of (parse_metadata_block meta_tree) ''DC.creator'' = None"
proof -
  have h: "filter is_area (findall ''metadata'' meta_tree) = [area_1, area_2]"
    by (simp add: meta_tree_def area_1_def area_2_def findall_def is_area_def attrib_get_def)
  have e: "parse_metadata_block meta_tree =
     [(''DC.title'', Scalar ''Verkeersbesluit Hoofdweg''),
      (''OVERHEIDop.externeBijlage'', Scalar ''exb-2024-1234''),
      (''OVERHEIDop.gebiedsmarkering'',
         Areas [[(''type'', Some ''Lijn''), (''geometrie'', Some ''POINT(4.88 52.37)''), (''label'', Some ''Hoofdweg'')],
                [(''type'', Some ''Vlak''), (''label'', Some ''Dorpsstraat'')]])]"
    by (simp add: meta_tree_def area_1_def area_2_def eval_meta)
  have s: "scalar_value ''DC.title'' (findall ''metadata'' meta_tree) = Some (Scalar ''Verkeersbesluit Hoofdweg'')"
    "scalar_value ''DC.creator'' (findall ''metadata'' meta_tree) = None"
    by (simp_all add: meta_tree_def area_1_def area_2_def eval_meta)
  from parse_metadata_two_areas [OF h] e s show ?thesis by simp
qed

section \<open>Image references\<close>

text \<open>
  Claim C6. When the metadata holds an external-attachment reference from which an
  exb-code is extracted, and the body parses to a tree with exactly two illustration
  elements below the root, each with a non-empty \<^verbatim>\<open>naam\<close>, the image references are the
  URL of the PDF followed by the URLs of the two illustrations in document order. When
  the body is not well-formed, the only reference is the URL of the PDF.
\<close>

theorem locate_pdf_then_embedded:
  assumes "map_of md ''OVERHEIDop.externeBijlage'' = Some (Scalar s)"
    and "re_search_exb s = Some code"
  shows "(\<forall>root i1 i2 n1 n2.
            fromstring env body = Some root \<and>
            findall_below ''illustratie'' root = [i1, i2] \<and>
            attrib_get i1 ''naam'' = Some n1 \<and> n1 \<noteq> [] \<and>
            attrib_get i2 ''naam'' = Some n2 \<and> n2 \<noteq> [] \<longrightarrow>
            locate env md body =
              Some [pdf_url code, ZOEK_BASE_URL @ ''/'' @ n1, ZOEK_BASE_URL @ ''/'' @ n2]) \<and>
         (fromstring env body = None \<longrightarrow> locate env md body = Some [pdf_url code])"
proof -
  from assms(2) have "s \<noteq> []" by auto
  with assms have "external_pdf_urls md = Some [pdf_url code]"
    by (simp add: external_pdf_urls_def get_pdf_attachment_image_urls_def)
  then show ?thesis
    by (auto simp add: locate_def get_embedded_image_urls_from_xml_def embedded_url_def)
qed

lemmas sample_docs = sru_body_def sru_empty_body_def doc_two_ill_def doc_charref_def doc_keyword_def
  doc_malformed_def meta_body_def meta_malformed_def content_url_1_def metadata_url_1_def dq_def

text \<open>Claim C6 on the sample document with two illustrations and on a body that does not parse.\<close>

theorem locate_pdf_then_embedded_witness:
  "locate env_pdf [(''OVERHEIDop.externeBijlage'', Scalar ''exb-2024-1234'')] doc_two_ill =
     Some [''https://repository.officiele-overheidspublicaties.nl/externebijlagen/exb-2024-1234/1/bijlage/exb-2024-1234.pdf'',
           ''https://zoek.officielebekendmakingen.nl/kaart-1.png'',
           ''https://zoek.officielebekendmakingen.nl/kaart-2.png''] \<and>
   locate env_pdf [(''OVERHEIDop.externeBijlage'', Scalar ''exb-2024-1234'')] doc_malformed =
     Some [''https://repository.officiele-overheidspublicaties.nl/externebijlagen/exb-2024-1234/1/bijlage/exb-2024-1234.pdf'']"
proof -
  let ?md = "[(''OVERHEIDop.externeBijlage'', Scalar ''exb-2024-1234'')]"
  have a: "map_of ?md ''OVERHEIDop.externeBijlage'' = Some (Scalar ''exb-2024-1234'')" by simp
  have b: "re_search_exb ''exb-2024-1234'' = Some ''exb-2024-1234''"
    by (simp add: not_slash_def)
  have c: "fromstring env_pdf doc_two_ill = Some tree_two_ill \<and>
      findall_below ''illustratie'' tree_two_ill =
        [Element ''illustratie'' [(''naam'', ''kaart-1.png'')] None [] None,
         Element ''illustratie'' [(''naam'', ''kaart-2.png'')] None [] None] \<and>
      attrib_get (Element ''illustratie'' [(''naam'', ''kaart-1.png'')] None [] None) ''naam'' = Some ''kaart-1.png'' \<and>
      ''kaart-1.png'' \<noteq> [] \<and>
      attrib_get (Element ''illustratie'' [(''naam'', ''kaart-2.png'')] None [] None) ''naam'' = Some ''kaart-2.png'' \<and>
      ''kaart-2.png'' \<noteq> []"
    by (simp add: env_pdf_def sample_fromstring_def sample_docs tree_two_ill_def findall_below_def
        attrib_get_def)
  have d: "fromstring env_pdf doc_malformed = None"
    by (simp add: env_pdf_def sample_fromstring_def sample_docs)
  from locate_pdf_then_embedded [OF a b, of env_pdf doc_two_ill] c
  have "locate env_pdf ?md doc_two_ill =
      Some [pdf_url ''exb-2024-1234'', ZOEK_BASE_URL @ ''/'' @ ''kaart-1.png'',
            ZOEK_BASE_URL @ ''/'' @ ''kaart-2.png'']"
    by blast
  moreover from locate_pdf_then_embedded [OF a b, of env_pdf doc_malformed] d
  have "locate env_pdf ?md doc_malformed = Some [pdf_url ''exb-2024-1234'']"
    by blast
  ultimately show ?thesis
    by (simp add: pdf_url_def REPOSITORY_BASE_URL_def ZOEK_BASE_URL_def)
qed

section \<open>Materialising a PDF attachment\<close>

lemma saved_sleep [simp]: "saved (sleep d w) = saved w"
  by (simp add: sleep_def)

lemma saved_wait_before [simp]: "saved (wait_before a w) = saved w"
  by (simp add: wait_before_def Let_def)

lemma saved_on_response: "saved (step_world (on_response r w)) = saved w"
  by (simp add: on_response_def Let_def split: option.splits)

lemma saved_attempt_step: "saved (step_world (attempt_step net url ps a w)) = saved w"
  by (simp add: attempt_step_def Let_def saved_on_response split: event.splits)

lemma saved_attempts_from: "saved (snd (attempts_from net url ps a w)) = saved w"
proof (induction net url ps a w rule: attempts_from.induct)
  case (1 net url ps attempt w)
  show ?case
  proof (cases "attempt < MAX_RETRIES + 1")
    case False
    then show ?thesis by (subst attempts_from.simps) simp
  next
    case True
    show ?thesis
    proof (cases "attempt_step net url ps attempt w")
      case (Next w')
      have "saved w' = saved w"
        using saved_attempt_step [of net url ps attempt w] Next by simp
      moreover have "saved (snd (attempts_from net url ps (Suc attempt) w')) = saved w'"
        using "1.IH" [OF True Next] .
      ultimately show ?thesis
        using True Next by (subst attempts_from.simps) simp
    next
      case (Done res w')
      have "saved w' = saved w"
        using saved_attempt_step [of net url ps attempt w] Done by simp
      then show ?thesis
        using True Done by (subst attempts_from.simps) simp
    qed
  qed
qed

lemma saved_fetch: "saved (snd (make_rate_limited_request net url ps w)) = saved w"
  by (simp add: make_rate_limited_request_def saved_attempts_from)

lemma materialize_one:
  assumes "make_rate_limited_request (http_get env) (pdf_url code) [] w = (Inr (Some resp), w1)"
    and "renders_negative env resp"
  shows "download_en_convert_pdf_bijlage env code bid w = ([], w1) \<and> saved w1 = saved w"
proof -
  have "saved w1 = saved w"
    using saved_fetch [of "http_get env" "pdf_url code" "[]" w] assms(1) by simp
  moreover have "download_en_convert_pdf_bijlage env code bid w = ([], w1)"
    using assms
    by (simp add: download_en_convert_pdf_bijlage_def renders_negative_def
        split: option.splits list.splits)
  ultimately show ?thesis by simp
qed

text \<open>
  Claim C7. When the PDF request is answered by a 200 whose body renders and whose first
  page gets a negative verdict, the call returns the empty string and writes no file.
  When a second call, made in the state the first one left, receives the same body, it
  too returns the empty string, and no file has been written by either call.
\<close>

theorem materialize_negative_twice:
  assumes "make_rate_limited_request (http_get env) (pdf_url code) [] w = (Inr (Some resp), w1)"
    and "renders_negative env resp"
  shows "download_en_convert_pdf_bijlage env code bid w = ([], w1) \<and> saved w1 = saved w \<and>
         (\<forall>resp2 w2.
            make_rate_limited_request (http_get env) (pdf_url code) [] w1 = (Inr (Some resp2), w2) \<and>
            status_code resp2 = 200 \<and> content resp2 = content resp \<longrightarrow>
            download_en_convert_pdf_bijlage env code bid w1 = ([], w2) \<and> saved w2 = saved w)"
proof (intro conjI allI impI)
  show "download_en_convert_pdf_bijlage env code bid w = ([], w1)" and s1: "saved w1 = saved w"
    using materialize_one [OF assms] by simp_all
  fix resp2 w2
  assume h: "make_rate_limited_request (http_get env) (pdf_url code) [] w1 = (Inr (Some resp2), w2) \<and>
            status_code resp2 = 200 \<and> content resp2 = content resp"
  then have "renders_negative env resp2"
    using assms(2) by (simp add: renders_negative_def)
  with h have "download_en_convert_pdf_bijlage env code bid w1 = ([], w2) \<and> saved w2 = saved w1"
    using materialize_one [of env code w1 resp2 w2 bid] by simp
  with s1 show "download_en_convert_pdf_bijlage env code bid w1 = ([], w2)" and "saved w2 = saved w"
    by simp_all
qed

lemma length_pdf_bytes: "length pdf_bytes = 60008"
  by (simp add: pdf_bytes_def)

lemma fetch_pdf:
  "make_rate_limited_request net_pdf (pdf_url ''exb-2024-1234'') [] w =
     (Inr (Some \<lparr>status_code = 200, retry_after = None, content = pdf_bytes\<rparr>),
      w\<lparr>clock := clock (wait_before 0 w), reqs := Suc (reqs w),
        last_request_time := clock (wait_before 0 w),
        rate_limited := rate_limited w \<and> successful_requests w + 1 < SUCCESSFUL_REQUESTS_TO_RESET,
        successful_requests := (if rate_limited w \<and> SUCCESSFUL_REQUESTS_TO_RESET \<le> successful_requests w + 1
                                then 0 else successful_requests w + 1)\<rparr>)"
  by (simp add: make_rate_limited_request_def attempts_from.simps [of _ _ _ 0] MAX_RETRIES_def
      attempt_step_def on_response_def net_pdf_def ok_def Let_def wait_before_def sleep_def)

text \<open>
  Claim C7 on a sample: a PDF of 60008 bytes with two pages and a classifier that
  rejects; the call is made twice, nothing is saved.
\<close>

theorem materialize_negative_twice_witness:
  "fst (download_en_convert_pdf_bijlage env_pdf ''exb-2024-1234'' ''stcrt-2024-1'' w_init) = [] \<and>
   saved (snd (download_en_convert_pdf_bijlage env_pdf ''exb-2024-1234'' ''stcrt-2024-1'' w_init)) = [] \<and>
   fst (download_en_convert_pdf_bijlage env_pdf ''exb-2024-1234'' ''stcrt-2024-1''
         (snd (download_en_convert_pdf_bijlage env_pdf ''exb-2024-1234'' ''stcrt-2024-1'' w_init))) = [] \<and>
   saved (snd (download_en_convert_pdf_bijlage env_pdf ''exb-2024-1234'' ''stcrt-2024-1''
         (snd (download_en_convert_pdf_bijlage env_pdf ''exb-2024-1234'' ''stcrt-2024-1'' w_init)))) = []"
proof -
  let ?r = "\<lparr>status_code = 200, retry_after = None, content = pdf_bytes\<rparr>"
  obtain w1 where f1: "make_rate_limited_request (http_get env_pdf) (pdf_url ''exb-2024-1234'') [] w_init
      = (Inr (Some ?r), w1)"
    using fetch_pdf [of w_init] by (simp add: env_pdf_def)
  obtain w2 where f2: "make_rate_limited_request (http_get env_pdf) (pdf_url ''exb-2024-1234'') [] w1
      = (Inr (Some ?r), w2)"
    using fetch_pdf [of w1] by (simp add: env_pdf_def)
  have n: "renders_negative env_pdf ?r"
    by (simp add: renders_negative_def env_pdf_def MIN_PDF_SIZE_BYTES_def length_pdf_bytes)
  from materialize_negative_twice [OF f1 n, of "''stcrt-2024-1''"] f2
  have "download_en_convert_pdf_bijlage env_pdf ''exb-2024-1234'' ''stcrt-2024-1'' w_init = ([], w1) \<and>
        saved w1 = saved w_init \<and>
        download_en_convert_pdf_bijlage env_pdf ''exb-2024-1234'' ''stcrt-2024-1'' w1 = ([], w2) \<and>
        saved w2 = saved w_init"
    by simp
  then show ?thesis by (simp add: w_init_def)
qed

section \<open>The pipeline for one date\<close>

lemma contains_iff_sublist: "contains k s = sublist k s"
  by (induction s) (simp_all add: sublist_Cons_right)

lemma excluded_iff:
  "excluded c = (\<exists>k \<in> set EXCLUDE_KEYWORDS. sublist k (lower c))"
  by (simp add: excluded_def list_ex_iff contains_iff_sublist)

lemma process_records_append:
  "process_records env (xs @ ys) acc w =
     (case process_records env xs acc w of
        (Inl e, w1) \<Rightarrow> (Inl e, w1)
      | (Inr acc1, w1) \<Rightarrow> process_records env ys acc1 w1)"
  by (induction xs arbitrary: acc w) (simp_all split: prod.splits sum.splits option.splits)

lemma process_records_keeps:
  "process_records env rs acc w = (Inr out, w') \<Longrightarrow> set acc \<subseteq> set out"
proof (induction rs arbitrary: acc w)
  case Nil
  then show ?case by simp
next
  case (Cons rcd rs)
  obtain res w1 where pr: "process_record env rcd w = (res, w1)" by (cases "process_record env rcd w")
  show ?case
  proof (cases res)
    case (Inl e)
    with Cons.prems pr show ?thesis by simp
  next
    case (Inr o1)
    show ?thesis
    proof (cases o1)
      case None
      with Inr pr Cons.prems have "process_records env rs acc w1 = (Inr out, w')" by simp
      from Cons.IH [OF this] show ?thesis .
    next
      case (Some d1)
      with Inr pr Cons.prems have "process_records env rs (acc @ [d1]) w1 = (Inr out, w')" by simp
      from Cons.IH [OF this] show ?thesis by simp
    qed
  qed
qed

lemma process_records_origin:
  "process_records env rs acc w = (Inr out, w') \<Longrightarrow> d \<in> set out \<Longrightarrow>
     d \<in> set acc \<or>
     (\<exists>pre rcd post acc1 wa wb.
        rs = pre @ rcd # post \<and> process_records env pre acc w = (Inr acc1, wa) \<and>
        process_record env rcd wa = (Inr (Some d), wb))"
proof (induction rs arbitrary: acc w)
  case Nil
  then show ?case by simp
next
  case (Cons x rs)
  obtain res w1 where pr: "process_record env x w = (res, w1)" by (cases "process_record env x w")
  show ?case
  proof (cases res)
    case (Inl e)
    with Cons.prems pr show ?thesis by simp
  next
    case (Inr o1)
    show ?thesis
    proof (cases o1)
      case None
      with Inr pr Cons.prems have "process_records env rs acc w1 = (Inr out, w')" by simp
      from Cons.IH [OF this Cons.prems(2)] show ?thesis
      proof
        assume "d \<in> set acc"
        then show ?thesis by simp
      next
        assume "\<exists>pre rcd post acc1 wa wb.
          rs = pre @ rcd # post \<and> process_records env pre acc w1 = (Inr acc1, wa) \<and>
          process_record env rcd wa = (Inr (Some d), wb)"
        then obtain pre rcd post acc1 wa wb where
          h: "rs = pre @ rcd # post" "process_records env pre acc w1 = (Inr acc1, wa)"
             "process_record env rcd wa = (Inr (Some d), wb)" by blast
        have "x # rs = (x # pre) @ rcd # post" using h(1) by simp
        moreover have "process_records env (x # pre) acc w = (Inr acc1, wa)"
          using h(2) pr Inr None by simp
        ultimately show ?thesis using h(3) by blast
      qed
    next
      case (Some d1)
      with Inr pr Cons.prems have "process_records env rs (acc @ [d1]) w1 = (Inr out, w')" by simp
      from Cons.IH [OF this Cons.prems(2)] show ?thesis
      proof
        assume "d \<in> set (acc @ [d1])"
        then have "d \<in> set acc \<or> d = d1" by auto
        then show ?thesis
        proof
          assume "d \<in> set acc"
          then show ?thesis by simp
        next
          assume "d = d1"
          have "x # rs = [] @ x # rs" by simp
          moreover have "process_records env [] acc w = (Inr acc, w)" by simp
          moreover have "process_record env x w = (Inr (Some d), w1)"
            using pr Inr Some \<open>d = d1\<close> by simp
          ultimately show ?thesis by blast
        qed
      next
        assume "\<exists>pre rcd post acc1 wa wb.
          rs = pre @ rcd # post \<and> process_records env pre (acc @ [d1]) w1 = (Inr acc1, wa) \<and>
          process_record env rcd wa = (Inr (Some d), wb)"
        then obtain pre rcd post acc1 wa wb where
          h: "rs = pre @ rcd # post" "process_records env pre (acc @ [d1]) w1 = (Inr acc1, wa)"
             "process_record env rcd wa = (Inr (Some d), wb)" by blast
        have "x # rs = (x # pre) @ rcd # post" using h(1) by simp
        moreover have "process_records env (x # pre) acc w = (Inr acc1, wa)"
          using h(2) pr Inr Some by simp
        ultimately show ?thesis using h(3) by blast
      qed
    qed
  qed
qed

lemma run_reached:
  assumes "reached env date_str w pre rcd post acc wa"
  shows "get_besluiten_for_date env date_str w = process_records env (rcd # post) acc wa"
  using assms
  by (auto simp add: reached_def get_besluiten_for_date_def Let_def process_records_append
      split: prod.splits sum.splits option.splits)

lemma get_besluiten_origin:
  assumes "get_besluiten_for_date env date_str w = (Inr out, w')" and "d \<in> set out"
  shows "\<exists>pre rcd post acc wa wb.
           reached env date_str w pre rcd post acc wa \<and>
           process_record env rcd wa = (Inr (Some d), wb)"
proof -
  from assms obtain resp w1 root where
    f: "make_rate_limited_request (http_get env) SRU_BASE_URL (sru_params date_str) w
          = (Inr (Some resp), w1)"
    and k: "ok resp" and p: "fromstring env (content resp) = Some root"
    and r: "process_records env (findall_below sru_recordData root) [] w1 = (Inr out, w')"
    by (auto simp add: get_besluiten_for_date_def Let_def
        split: prod.splits sum.splits option.splits if_splits)
  from process_records_origin [OF r assms(2)] obtain pre rcd post acc wa wb where
    "findall_below sru_recordData root = pre @ rcd # post"
    "process_records env pre [] w1 = (Inr acc, wa)"
    "process_record env rcd wa = (Inr (Some d), wb)"
    by auto
  with f k p have "reached env date_str w pre rcd post acc wa \<and>
      process_record env rcd wa = (Inr (Some d), wb)"
    by (simp add: reached_def)
  then show ?thesis by blast
qed

lemma process_record_Some:
  assumes "process_record env rcd w = (Inr (Some d), w')"
  shows "\<exists>cu r w1 pdfs.
           item_urls_get (item_urls rcd) ''xml'' = Some cu \<and> cu \<noteq> [] \<and>
           make_rate_limited_request (http_get env) cu [] w = (Inr (Some r), w1) \<and>
           ok r \<and> \<not> excluded (decode env (content r)) \<and>
           fetch_metadata env (item_urls_get (item_urls rcd) ''metadata'') w1
             = (Inr (besluit_metadata d), w') \<and>
           external_pdf_urls (besluit_metadata d) = Some pdfs \<and>
           besluit_id d = remove_dot_xml (last_segment cu) \<and>
           besluit_text d = extract_plain_text_from_xml env (decode env (content r)) \<and>
           images d = pdfs @ get_embedded_image_urls_from_xml env (decode env (content r))"
  using assms
  by (auto simp add: process_record_def Let_def locate_def
      split: option.splits sum.splits prod.splits if_splits)

lemma fetch_metadata_Inr:
  assumes "fetch_metadata env mu w = (Inr md, w')"
  shows "md = [] \<or>
         (\<exists>m resp root. mu = Some m \<and> m \<noteq> [] \<and>
            make_rate_limited_request (http_get env) m [] w = (Inr (Some resp), w') \<and>
            ok resp \<and> fromstring env (content resp) = Some root \<and>
            md = parse_metadata_block root)"
  using assms
  by (auto simp add: fetch_metadata_def split: option.splits sum.splits prod.splits if_splits)

lemma fetch_first_try:
  assumes "net (reqs w) url ps = Response r" and "status_code r \<noteq> 429"
  shows "fst (make_rate_limited_request net url ps w) = Inr (Some r) \<and>
         reqs (snd (make_rate_limited_request net url ps w)) = reqs w + 1"
  using retried_then_returned [of 0 0 w net url ps r] assms
  by (simp add: make_rate_limited_request_def)

lemmas eval_xml = findall_below_def attrib_get_def item_urls_def item_urls_get_def
  sru_recordData_def gzd_itemUrl_def sru_ns_def gzd_ns_def truthy_def
  extract_plain_text_from_xml_def get_embedded_image_urls_from_xml_def embedded_url_def
  locate_def external_pdf_urls_def get_pdf_attachment_image_urls_def pdf_url_def
  REPOSITORY_BASE_URL_def ZOEK_BASE_URL_def not_slash_def last_segment_def
  strip_def is_space_def

lemmas eval_filter = excluded_def EXCLUDE_KEYWORDS_def lower_def lower_char_def

lemmas eval_run = get_besluiten_for_date_def process_record_def fetch_metadata_def
  sample_env_def site_def resp_ok_def resp_404_def sample_fromstring_def SRU_BASE_URL_def
  sru_tree_def sru_record_def sru_empty_tree_def tree_two_ill_def tree_charref_def

lemma excluded_doc_charref: "\<not> excluded doc_charref"
  by (simp add: eval_filter doc_charref_def)

lemma excluded_doc_malformed: "\<not> excluded doc_malformed"
  by (simp add: eval_filter doc_malformed_def)

lemma excluded_doc_two_ill: "\<not> excluded doc_two_ill"
  by (simp add: eval_filter doc_two_ill_def dq_def)

lemma excluded_doc_keyword: "excluded doc_keyword"
  by (simp add: eval_filter doc_keyword_def char_of_def bit_0)

text \<open>
  Claim C4, as amended. Every record of the returned list was assembled from a record of
  the search result that the run reached: the request for that record's own content URL,
  made in the state the run had reached, was answered by a response with
  \<^verbatim>\<open>response.ok\<close> whose decoded body, put in lower case, contains none of the exclusion
  keywords; the identifier of the returned record comes from that URL and its text is the
  text extracted from that body. A record whose decoded body contains an exclusion
  keyword, in any case, is dropped right after the request for its content: the loop
  goes on with the records after it, with the list assembled so far. The extracted text
  itself is not filtered.
\<close>

theorem returned_records_passed_raw_filter:
  "(\<forall>out w' d. get_besluiten_for_date env date_str w = (Inr out, w') \<and> d \<in> set out \<longrightarrow>
      (\<exists>pre rcd post acc wa cu r wb.
         reached env date_str w pre rcd post acc wa \<and>
         item_urls_get (item_urls rcd) ''xml'' = Some cu \<and> cu \<noteq> [] \<and>
         make_rate_limited_request (http_get env) cu [] wa = (Inr (Some r), wb) \<and> ok r \<and>
         (\<forall>k \<in> set EXCLUDE_KEYWORDS. \<not> sublist k (lower (decode env (content r)))) \<and>
         besluit_id d = remove_dot_xml (last_segment cu) \<and>
         besluit_text d = extract_plain_text_from_xml env (decode env (content r)))) \<and>
   (\<forall>rcd wa cu r wb.
      item_urls_get (item_urls rcd) ''xml'' = Some cu \<and> cu \<noteq> [] \<and>
      make_rate_limited_request (http_get env) cu [] wa = (Inr (Some r), wb) \<and>
      (\<exists>k \<in> set EXCLUDE_KEYWORDS. sublist k (lower (decode env (content r)))) \<longrightarrow>
      process_record env rcd wa = (Inr None, wb) \<and>
      (\<forall>pre post acc. reached env date_str w pre rcd post acc wa \<longrightarrow>
         get_besluiten_for_date env date_str w = process_records env post acc wb))"
proof (intro conjI allI impI)
  fix out w' d
  assume h: "get_besluiten_for_date env date_str w = (Inr out, w') \<and> d \<in> set out"
  then obtain pre rcd post acc wa wb where
    r: "reached env date_str w pre rcd post acc wa" and
    p: "process_record env rcd wa = (Inr (Some d), wb)"
    using get_besluiten_origin [of env date_str w out w' d] by blast
  from process_record_Some [OF p] obtain cu r w1 where
    "item_urls_get (item_urls rcd) ''xml'' = Some cu" "cu \<noteq> []"
    "make_rate_limited_request (http_get env) cu [] wa = (Inr (Some r), w1)"
    "ok r" "\<not> excluded (decode env (content r))"
    "besluit_id d = remove_dot_xml (last_segment cu)"
    "besluit_text d = extract_plain_text_from_xml env (decode env (content r))"
    by blast
  with r show "\<exists>pre rcd post acc wa cu r wb.
         reached env date_str w pre rcd post acc wa \<and>
         item_urls_get (item_urls rcd) ''xml'' = Some cu \<and> cu \<noteq> [] \<and>
         make_rate_limited_request (http_get env) cu [] wa = (Inr (Some r), wb) \<and> ok r \<and>
         (\<forall>k \<in> set EXCLUDE_KEYWORDS. \<not> sublist k (lower (decode env (content r)))) \<and>
         besluit_id d = remove_dot_xml (last_segment cu) \<and>
         besluit_text d = extract_plain_text_from_xml env (decode env (content r))"
    unfolding excluded_iff by blast
next
  fix rcd wa cu r wb
  assume h: "item_urls_get (item_urls rcd) ''xml'' = Some cu \<and> cu \<noteq> [] \<and>
            make_rate_limited_request (http_get env) cu [] wa = (Inr (Some r), wb) \<and>
            (\<exists>k \<in> set EXCLUDE_KEYWORDS. sublist k (lower (decode env (content r))))"
  then have "excluded (decode env (content r))" by (simp add: excluded_iff)
  with h show p: "process_record env rcd wa = (Inr None, wb)"
    by (simp add: process_record_def Let_def)
  fix pre post acc
  assume "reached env date_str w pre rcd post acc wa"
  from run_reached [OF this] p
  show "get_besluiten_for_date env date_str w = process_records env post acc wb"
    by simp
qed

text \<open>
  Claim C4 as stated fails: the body spells a keyword with a character reference, so the
  raw body passes the filter, and the text of the returned record is the keyword.
\<close>

theorem charref_text_counterexample:
  "fst (get_besluiten_for_date (sample_env (resp_ok sru_body) (resp_ok doc_charref) resp_404)
         ''2024-05-01'' w_init) =
     Inr [\<lparr>besluit_id = ''stcrt-2024-1'', besluit_text = ''parkeerplaats'',
           besluit_metadata = [], images = []\<rparr>] \<and>
   ''parkeerplaats'' \<in> set EXCLUDE_KEYWORDS \<and>
   sublist ''parkeerplaats'' (lower ''parkeerplaats'')"
proof -
  have "fst (get_besluiten_for_date (sample_env (resp_ok sru_body) (resp_ok doc_charref) resp_404)
         ''2024-05-01'' w_init) =
     Inr [\<lparr>besluit_id = ''stcrt-2024-1'', besluit_text = ''parkeerplaats'',
           besluit_metadata = [], images = []\<rparr>]"
    by (simp add: eval_run eval_fetch eval_xml excluded_doc_charref [unfolded doc_charref_def]
        sample_docs w_init_def)
  moreover have "''parkeerplaats'' \<in> set EXCLUDE_KEYWORDS"
    by (simp add: EXCLUDE_KEYWORDS_def)
  moreover have "sublist ''parkeerplaats'' (lower ''parkeerplaats'')"
    by (simp add: contains_iff_sublist [symmetric] lower_def lower_char_def)
  ultimately show ?thesis by simp
qed

text \<open>
  Claim C4, as amended, on two sample sites: one serves the document with two
  illustrations, which is returned; the other serves a document with a keyword in mixed
  case, which is dropped after the second request of the run.
\<close>

theorem returned_records_passed_raw_filter_witness:
  "fst (get_besluiten_for_date (sample_env (resp_ok sru_body) (resp_ok doc_two_ill) resp_404)
         ''2024-05-01'' w_init) =
     Inr [\<lparr>besluit_id = ''stcrt-2024-1'', besluit_text = ''Zie kaart'', besluit_metadata = [],
           images = [''https://zoek.officielebekendmakingen.nl/kaart-1.png'',
                     ''https://zoek.officielebekendmakingen.nl/kaart-2.png'']\<rparr>] \<and>
   (\<exists>pre rcd post acc wa cu r wb.
      reached (sample_env (resp_ok sru_body) (resp_ok doc_two_ill) resp_404) ''2024-05-01'' w_init
        pre rcd post acc wa \<and>
      item_urls_get (item_urls rcd) ''xml'' = Some cu \<and> cu \<noteq> [] \<and>
      make_rate_limited_request
        (http_get (sample_env (resp_ok sru_body) (resp_ok doc_two_ill) resp_404)) cu [] wa
        = (Inr (Some r), wb) \<and> ok r \<and>
      (\<forall>k \<in> set EXCLUDE_KEYWORDS.
         \<not> sublist k (lower (decode (sample_env (resp_ok sru_body) (resp_ok doc_two_ill) resp_404) (content r)))) \<and>
      ''stcrt-2024-1'' = remove_dot_xml (last_segment cu) \<and>
      ''Zie kaart'' = extract_plain_text_from_xml (sample_env (resp_ok sru_body) (resp_ok doc_two_ill) resp_404)
         (decode (sample_env (resp_ok sru_body) (resp_ok doc_two_ill) resp_404) (content r))) \<and>
   fst (get_besluiten_for_date (sample_env (resp_ok sru_body) (resp_ok doc_keyword) resp_404)
         ''2024-05-01'' w_init) = Inr [] \<and>
   reqs (snd (get_besluiten_for_date (sample_env (resp_ok sru_body) (resp_ok doc_keyword) resp_404)
         ''2024-05-01'' w_init)) = 2"
proof -
  let ?E = "sample_env (resp_ok sru_body) (resp_ok doc_two_ill) resp_404"
  let ?d = "\<lparr>besluit_id = ''stcrt-2024-1'', besluit_text = ''Zie kaart'', besluit_metadata = [],
           images = [''https://zoek.officielebekendmakingen.nl/kaart-1.png'',
                     ''https://zoek.officielebekendmakingen.nl/kaart-2.png'']\<rparr>"
  have e: "fst (get_besluiten_for_date ?E ''2024-05-01'' w_init) = Inr [?d]"
    by (simp add: eval_run eval_fetch eval_xml excluded_doc_two_ill [unfolded doc_two_ill_def dq_def, simplified]
        sample_docs w_init_def)
  then have run: "get_besluiten_for_date ?E ''2024-05-01'' w_init =
      (Inr [?d], snd (get_besluiten_for_date ?E ''2024-05-01'' w_init)) \<and> ?d \<in> set [?d]"
    by (simp add: prod_eq_iff)
  note t1 = returned_records_passed_raw_filter [of ?E "''2024-05-01''" w_init, THEN conjunct1,
      rule_format, OF run]
  let ?K = "sample_env (resp_ok sru_body) (resp_ok doc_keyword) resp_404"
  let ?wa = "snd (make_rate_limited_request (http_get ?K) SRU_BASE_URL (sru_params ''2024-05-01'') w_init)"
  let ?wb = "snd (make_rate_limited_request (http_get ?K) content_url_1 [] ?wa)"
  have r: "reached ?K ''2024-05-01'' w_init [] sru_record [] [] ?wa"
    by (simp add: reached_def eval_run eval_fetch eval_xml sample_docs w_init_def)
  have u: "item_urls_get (item_urls sru_record) ''xml'' = Some content_url_1"
    by (simp add: sru_record_def eval_xml)
  have ne: "content_url_1 \<noteq> []" by (simp add: content_url_1_def)
  have "http_get ?K (reqs ?wa) content_url_1 [] = Response (resp_ok doc_keyword)"
    by (simp add: sample_env_def site_def content_url_1_def SRU_BASE_URL_def)
  moreover have "status_code (resp_ok doc_keyword) \<noteq> 429" by (simp add: resp_ok_def)
  ultimately have ff: "fst (make_rate_limited_request (http_get ?K) content_url_1 [] ?wa)
        = Inr (Some (resp_ok doc_keyword)) \<and> reqs ?wb = reqs ?wa + 1"
    using fetch_first_try [of "http_get ?K" ?wa content_url_1 "[]" "resp_ok doc_keyword"] by blast
  then have f: "make_rate_limited_request (http_get ?K) content_url_1 [] ?wa
        = (Inr (Some (resp_ok doc_keyword)), ?wb)"
    by (simp add: prod_eq_iff)
  have "http_get ?K (reqs w_init) SRU_BASE_URL (sru_params ''2024-05-01'') = Response (resp_ok sru_body)"
    by (simp add: sample_env_def site_def)
  moreover have "status_code (resp_ok sru_body) \<noteq> 429" by (simp add: resp_ok_def)
  ultimately have "reqs ?wa = reqs w_init + 1"
    using fetch_first_try [of "http_get ?K" w_init SRU_BASE_URL "sru_params ''2024-05-01''" "resp_ok sru_body"]
    by blast
  with ff have q: "reqs ?wb = 2" by (simp add: w_init_def)
  have x: "\<exists>k \<in> set EXCLUDE_KEYWORDS. sublist k (lower (decode ?K (content (resp_ok doc_keyword))))"
    using excluded_doc_keyword by (simp add: excluded_iff sample_env_def resp_ok_def)
  from returned_records_passed_raw_filter [of ?K "''2024-05-01''" w_init, THEN conjunct2,
      rule_format, of sru_record content_url_1 ?wa "resp_ok doc_keyword" ?wb] u ne f x r
  have "get_besluiten_for_date ?K ''2024-05-01'' w_init = process_records ?K [] [] ?wb"
    by blast
  with q have "fst (get_besluiten_for_date ?K ''2024-05-01'' w_init) = Inr [] \<and>
      reqs (snd (get_besluiten_for_date ?K ''2024-05-01'' w_init)) = 2"
    by simp
  with e t1 show ?thesis by simp
qed

text \<open>
  Claim C1 fails on the code: the metadata request is answered by a 200 whose body is not
  well-formed XML. \<^verbatim>\<open>ET.fromstring\<close> at line 224 is in no \<^verbatim>\<open>try\<close> block, so the ParseError
  leaves \<^verbatim>\<open>get_besluiten_for_date\<close> and no record of that date is returned.
\<close>

theorem malformed_metadata_aborts_run:
  "fst (get_besluiten_for_date
          (sample_env (resp_ok sru_body) (resp_ok doc_two_ill) (resp_ok meta_malformed))
          ''2024-05-01'' w_init) = Inl ParseError"
  by (simp add: eval_run eval_fetch eval_xml excluded_doc_two_ill [unfolded doc_two_ill_def dq_def, simplified]
      sample_docs w_init_def)

text \<open>
  Claim C5, as amended. Every record of the returned list was assembled from a record of
  the search result that the run reached, whose content was fetched with
  \<^verbatim>\<open>response.ok\<close> and passed the keyword filter. Its identifier comes from the content
  URL. Its metadata is the empty map, or the map parsed from the metadata document when
  that was fetched with \<^verbatim>\<open>response.ok\<close> and parsed. When the content parses as XML, its
  text is the text extracted from the tree and its images are the PDF references from the
  metadata followed by the embedded references of the tree. When the content does not
  parse, the record is returned all the same, with the empty text and the PDF references
  as its only images: it is appended to the list, the loop goes on with the records after
  it, and the record is in every list the run returns.
\<close>

theorem returned_records_as_assembled:
  "(\<forall>out w' d. get_besluiten_for_date env date_str w = (Inr out, w') \<and> d \<in> set out \<longrightarrow>
      (\<exists>pre rcd post acc wa cu r wb wc pdfs.
         reached env date_str w pre rcd post acc wa \<and>
         item_urls_get (item_urls rcd) ''xml'' = Some cu \<and> cu \<noteq> [] \<and>
         make_rate_limited_request (http_get env) cu [] wa = (Inr (Some r), wb) \<and> ok r \<and>
         \<not> excluded (decode env (content r)) \<and>
         fetch_metadata env (item_urls_get (item_urls rcd) ''metadata'') wb
           = (Inr (besluit_metadata d), wc) \<and>
         (besluit_metadata d = [] \<or>
          (\<exists>mu mresp mroot.
             item_urls_get (item_urls rcd) ''metadata'' = Some mu \<and> mu \<noteq> [] \<and>
             make_rate_limited_request (http_get env) mu [] wb = (Inr (Some mresp), wc) \<and>
             ok mresp \<and> fromstring env (content mresp) = Some mroot \<and>
             besluit_metadata d = parse_metadata_block mroot)) \<and>
         external_pdf_urls (besluit_metadata d) = Some pdfs \<and>
         besluit_id d = remove_dot_xml (last_segment cu) \<and>
         (case fromstring env (decode env (content r)) of
            Some doc \<Rightarrow>
              besluit_text d = strip (join_space (itertext doc)) \<and>
              images d = pdfs @ concat (map embedded_url (findall_below ''illustratie'' doc))
          | None \<Rightarrow> besluit_text d = [] \<and> images d = pdfs))) \<and>
   (\<forall>pre rcd post acc wa cu r wb md wc pdfs.
      reached env date_str w pre rcd post acc wa \<and>
      item_urls_get (item_urls rcd) ''xml'' = Some cu \<and> cu \<noteq> [] \<and>
      make_rate_limited_request (http_get env) cu [] wa = (Inr (Some r), wb) \<and> ok r \<and>
      \<not> excluded (decode env (content r)) \<and>
      fromstring env (decode env (content r)) = None \<and>
      fetch_metadata env (item_urls_get (item_urls rcd) ''metadata'') wb = (Inr md, wc) \<and>
      external_pdf_urls md = Some pdfs \<longrightarrow>
      get_besluiten_for_date env date_str w =
        process_records env post
          (acc @ [\<lparr>besluit_id = remove_dot_xml (last_segment cu), besluit_text = [],
                    besluit_metadata = md, images = pdfs\<rparr>]) wc \<and>
      (\<forall>out w'. get_besluiten_for_date env date_str w = (Inr out, w') \<longrightarrow>
         \<lparr>besluit_id = remove_dot_xml (last_segment cu), besluit_text = [],
          besluit_metadata = md, images = pdfs\<rparr> \<in> set out))"
proof (intro conjI allI impI)
  fix out w' d
  assume h: "get_besluiten_for_date env date_str w = (Inr out, w') \<and> d \<in> set out"
  then obtain pre rcd post acc wa wc where
    r: "reached env date_str w pre rcd post acc wa" and
    p: "process_record env rcd wa = (Inr (Some d), wc)"
    using get_besluiten_origin [of env date_str w out w' d] by blast
  from process_record_Some [OF p] obtain cu r wb pdfs where
    a: "item_urls_get (item_urls rcd) ''xml'' = Some cu" "cu \<noteq> []"
       "make_rate_limited_request (http_get env) cu [] wa = (Inr (Some r), wb)"
       "ok r" "\<not> excluded (decode env (content r))"
       "external_pdf_urls (besluit_metadata d) = Some pdfs"
       "besluit_id d = remove_dot_xml (last_segment cu)" and
    m: "fetch_metadata env (item_urls_get (item_urls rcd) ''metadata'') wb
         = (Inr (besluit_metadata d), wc)" and
    t: "besluit_text d = extract_plain_text_from_xml env (decode env (content r))" and
    i: "images d = pdfs @ get_embedded_image_urls_from_xml env (decode env (content r))"
    by blast
  have b: "besluit_metadata d = [] \<or>
          (\<exists>mu mresp mroot.
             item_urls_get (item_urls rcd) ''metadata'' = Some mu \<and> mu \<noteq> [] \<and>
             make_rate_limited_request (http_get env) mu [] wb = (Inr (Some mresp), wc) \<and>
             ok mresp \<and> fromstring env (content mresp) = Some mroot \<and>
             besluit_metadata d = parse_metadata_block mroot)"
    using fetch_metadata_Inr [OF m] .
  have c: "case fromstring env (decode env (content r)) of
            Some doc \<Rightarrow>
              besluit_text d = strip (join_space (itertext doc)) \<and>
              images d = pdfs @ concat (map embedded_url (findall_below ''illustratie'' doc))
          | None \<Rightarrow> besluit_text d = [] \<and> images d = pdfs"
    using t i
    by (simp add: extract_plain_text_from_xml_def get_embedded_image_urls_from_xml_def
        split: option.splits)
  from r a m b c show "\<exists>pre rcd post acc wa cu r wb wc pdfs.
         reached env date_str w pre rcd post acc wa \<and>
         item_urls_get (item_urls rcd) ''xml'' = Some cu \<and> cu \<noteq> [] \<and>
         make_rate_limited_request (http_get env) cu [] wa = (Inr (Some r), wb) \<and> ok r \<and>
         \<not> excluded (decode env (content r)) \<and>
         fetch_metadata env (item_urls_get (item_urls rcd) ''metadata'') wb
           = (Inr (besluit_metadata d), wc) \<and>
         (besluit_metadata d = [] \<or>
          (\<exists>mu mresp mroot.
             item_urls_get (item_urls rcd) ''metadata'' = Some mu \<and> mu \<noteq> [] \<and>
             make_rate_limited_request (http_get env) mu [] wb = (Inr (Some mresp), wc) \<and>
             ok mresp \<and> fromstring env (content mresp) = Some mroot \<and>
             besluit_metadata d = parse_metadata_block mroot)) \<and>
         external_pdf_urls (besluit_metadata d) = Some pdfs \<and>
         besluit_id d = remove_dot_xml (last_segment cu) \<and>
         (case fromstring env (decode env (content r)) of
            Some doc \<Rightarrow>
              besluit_text d = strip (join_space (itertext doc)) \<and>
              images d = pdfs @ concat (map embedded_url (findall_below ''illustratie'' doc))
          | None \<Rightarrow> besluit_text d = [] \<and> images d = pdfs)"
    by blast
next
  fix pre rcd post acc wa cu r wb md wc pdfs
  assume h: "reached env date_str w pre rcd post acc wa \<and>
      item_urls_get (item_urls rcd) ''xml'' = Some cu \<and> cu \<noteq> [] \<and>
      make_rate_limited_request (http_get env) cu [] wa = (Inr (Some r), wb) \<and> ok r \<and>
      \<not> excluded (decode env (content r)) \<and>
      fromstring env (decode env (content r)) = None \<and>
      fetch_metadata env (item_urls_get (item_urls rcd) ''metadata'') wb = (Inr md, wc) \<and>
      external_pdf_urls md = Some pdfs"
  let ?d = "\<lparr>besluit_id = remove_dot_xml (last_segment cu), besluit_text = [],
             besluit_metadata = md, images = pdfs\<rparr>"
  have p: "process_record env rcd wa = (Inr (Some ?d), wc)"
    using h
    by (simp add: process_record_def Let_def locate_def extract_plain_text_from_xml_def
        get_embedded_image_urls_from_xml_def)
  from h have "reached env date_str w pre rcd post acc wa" by simp
  from run_reached [OF this] p
  show g: "get_besluiten_for_date env date_str w = process_records env post (acc @ [?d]) wc"
    by simp
  fix out w'
  assume "get_besluiten_for_date env date_str w = (Inr out, w')"
  with g have "process_records env post (acc @ [?d]) wc = (Inr out, w')" by simp
  from process_records_keeps [OF this] show "?d \<in> set out" by simp
qed

lemma run_env_full:
  "fst (get_besluiten_for_date env_full ''2024-05-01'' w_init) = Inr [besluit_full]"
  by (simp add: env_full_def besluit_full_def eval_run eval_fetch eval_xml eval_meta
      meta_tree_def area_1_def area_2_def
      excluded_doc_two_ill [unfolded doc_two_ill_def dq_def, simplified]
      sample_docs w_init_def)

text \<open>
  Claim C5, as amended, on two sample sites: one whose record is assembled from a
  document with two illustrations and a metadata document naming a PDF, and one whose
  document has a mismatched end tag.
\<close>

theorem returned_records_as_assembled_witness:
  "fst (get_besluiten_for_date env_full ''2024-05-01'' w_init) = Inr [besluit_full] \<and>
   (\<exists>pre rcd post acc wa cu r wb wc pdfs.
      reached env_full ''2024-05-01'' w_init pre rcd post acc wa \<and>
      item_urls_get (item_urls rcd) ''xml'' = Some cu \<and> cu \<noteq> [] \<and>
      make_rate_limited_request (http_get env_full) cu [] wa = (Inr (Some r), wb) \<and> ok r \<and>
      \<not> excluded (decode env_full (content r)) \<and>
      fetch_metadata env_full (item_urls_get (item_urls rcd) ''metadata'') wb
        = (Inr (besluit_metadata besluit_full), wc) \<and>
      (besluit_metadata besluit_full = [] \<or>
       (\<exists>mu mresp mroot.
          item_urls_get (item_urls rcd) ''metadata'' = Some mu \<and> mu \<noteq> [] \<and>
          make_rate_limited_request (http_get env_full) mu [] wb = (Inr (Some mresp), wc) \<and>
          ok mresp \<and> fromstring env_full (content mresp) = Some mroot \<and>
          besluit_metadata besluit_full = parse_metadata_block mroot)) \<and>
      external_pdf_urls (besluit_metadata besluit_full) = Some pdfs \<and>
      besluit_id besluit_full = remove_dot_xml (last_segment cu) \<and>
      (case fromstring env_full (decode env_full (content r)) of
         Some doc \<Rightarrow>
           besluit_text besluit_full = strip (join_space (itertext doc)) \<and>
           images besluit_full = pdfs @ concat (map embedded_url (findall_below ''illustratie'' doc))
       | None \<Rightarrow> besluit_text besluit_full = [] \<and> images besluit_full = pdfs)) \<and>
   fromstring env_malformed doc_malformed = None \<and>
   fst (get_besluiten_for_date env_malformed ''2024-05-01'' w_init) =
     Inr [\<lparr>besluit_id = ''stcrt-2024-1'', besluit_text = [], besluit_metadata = [],
           images = []\<rparr>]"
proof -
  have "get_besluiten_for_date env_full ''2024-05-01'' w_init =
      (Inr [besluit_full], snd (get_besluiten_for_date env_full ''2024-05-01'' w_init)) \<and>
      besluit_full \<in> set [besluit_full]"
    using run_env_full by (simp add: prod_eq_iff)
  note t1 = returned_records_as_assembled [of env_full "''2024-05-01''" w_init, THEN conjunct1,
      rule_format, OF this]
  let ?E = "env_malformed"
  let ?wa = "snd (make_rate_limited_request (http_get ?E) SRU_BASE_URL (sru_params ''2024-05-01'') w_init)"
  have r: "reached ?E ''2024-05-01'' w_init [] sru_record [] [] ?wa"
    by (simp add: env_malformed_def reached_def eval_run eval_fetch eval_xml sample_docs w_init_def)
  have u: "item_urls_get (item_urls sru_record) ''xml'' = Some content_url_1"
    "item_urls_get (item_urls sru_record) ''metadata'' = Some metadata_url_1"
    by (simp_all add: sru_record_def eval_xml)
  have ne: "content_url_1 \<noteq> []" by (simp add: content_url_1_def)
  have "http_get ?E (reqs ?wa) content_url_1 [] = Response (resp_ok doc_malformed)"
    by (simp add: env_malformed_def sample_env_def site_def content_url_1_def SRU_BASE_URL_def)
  moreover have "status_code (resp_ok doc_malformed) \<noteq> 429" by (simp add: resp_ok_def)
  ultimately have "fst (make_rate_limited_request (http_get ?E) content_url_1 [] ?wa)
        = Inr (Some (resp_ok doc_malformed))"
    using fetch_first_try [of "http_get ?E" ?wa content_url_1 "[]" "resp_ok doc_malformed"] by blast
  then obtain wb where f: "make_rate_limited_request (http_get ?E) content_url_1 [] ?wa
        = (Inr (Some (resp_ok doc_malformed)), wb)"
    by (cases "make_rate_limited_request (http_get ?E) content_url_1 [] ?wa") simp
  have k: "ok (resp_ok doc_malformed)" by (simp add: ok_def resp_ok_def)
  have x: "\<not> excluded (decode ?E (content (resp_ok doc_malformed)))"
    by (simp add: env_malformed_def sample_env_def resp_ok_def excluded_doc_malformed)
  have np: "fromstring ?E (decode ?E (content (resp_ok doc_malformed))) = None"
    by (simp add: env_malformed_def sample_env_def resp_ok_def sample_fromstring_def sample_docs)
  have "http_get ?E (reqs wb) metadata_url_1 [] = Response resp_404"
    by (simp add: env_malformed_def sample_env_def site_def content_url_1_def metadata_url_1_def
        SRU_BASE_URL_def)
  moreover have "status_code resp_404 \<noteq> 429" by (simp add: resp_404_def)
  ultimately have "fst (make_rate_limited_request (http_get ?E) metadata_url_1 [] wb)
      = Inr (Some resp_404)"
    using fetch_first_try [of "http_get ?E" wb metadata_url_1 "[]" resp_404] by blast
  then obtain wc where m1: "make_rate_limited_request (http_get ?E) metadata_url_1 [] wb
      = (Inr (Some resp_404), wc)"
    by (cases "make_rate_limited_request (http_get ?E) metadata_url_1 [] wb") simp
  have "metadata_url_1 \<noteq> []" by (simp add: metadata_url_1_def)
  moreover have "\<not> ok resp_404" by (simp add: ok_def resp_404_def)
  ultimately have m: "fetch_metadata ?E (item_urls_get (item_urls sru_record) ''metadata'') wb
      = (Inr [], wc)"
    by (simp add: fetch_metadata_def m1 u)
  have l: "external_pdf_urls [] = Some []" by (simp add: external_pdf_urls_def)
  from returned_records_as_assembled [of ?E "''2024-05-01''" w_init, THEN conjunct2, rule_format,
      of "[]" sru_record "[]" "[]" ?wa content_url_1 "resp_ok doc_malformed" wb "[]" wc "[]"]
    r u(1) ne f k x np m l
  have "get_besluiten_for_date ?E ''2024-05-01'' w_init =
      process_records ?E []
        ([] @ [\<lparr>besluit_id = remove_dot_xml (last_segment content_url_1), besluit_text = [],
                besluit_metadata = [], images = []\<rparr>]) wc"
    by blast
  moreover have "remove_dot_xml (last_segment content_url_1) = ''stcrt-2024-1''"
    by (simp add: content_url_1_def last_segment_def not_slash_def)
  ultimately have "fst (get_besluiten_for_date ?E ''2024-05-01'' w_init) =
     Inr [\<lparr>besluit_id = ''stcrt-2024-1'', besluit_text = [], besluit_metadata = [],
           images = []\<rparr>]"
    by simp
  moreover have "fromstring ?E doc_malformed = None"
    using np by (simp add: env_malformed_def sample_env_def resp_ok_def)
  ultimately show ?thesis using run_env_full t1 by simp
qed

text \<open>
  Claim C5 as stated fails: the content of the record has a mismatched end tag, and the
  record is returned with the empty text.
\<close>

theorem unparsable_content_counterexample:
  "fst (get_besluiten_for_date (sample_env (resp_ok sru_body) (resp_ok doc_malformed) resp_404)
         ''2024-05-01'' w_init) =
     Inr [\<lparr>besluit_id = ''stcrt-2024-1'', besluit_text = [], besluit_metadata = [], images = []\<rparr>] \<and>
   fromstring (sample_env (resp_ok sru_body) (resp_ok doc_malformed) resp_404) doc_malformed = None"
  by (simp add: eval_run eval_fetch eval_xml excluded_doc_malformed [unfolded doc_malformed_def]
      sample_docs w_init_def)

text \<open>
  Claim C10 as stated fails: for a string that is no date, \<^verbatim>\<open>get_besluiten_for_date\<close>
  issues the search request and returns a list.
\<close>

theorem no_validation_counterexample:
  "fst (get_besluiten_for_date (sample_env (resp_ok sru_empty_body) resp_404 resp_404)
         ''morgen'' w_init) = Inr [] \<and>
   reqs w_init = 0 \<and>
   reqs (snd (get_besluiten_for_date (sample_env (resp_ok sru_empty_body) resp_404 resp_404)
         ''morgen'' w_init)) = 1"
  by (simp add: eval_run eval_fetch eval_xml sample_docs w_init_def)

section \<open>Validation of the date\<close>

lemma char_by_code:
  "(of_char c :: nat) = n \<Longrightarrow> (of_char d :: nat) = n \<Longrightarrow> c = d"
  by (rule of_char_eqI [where ?'a = nat]) simp

lemma is_digit_cases:
  assumes "is_digit c"
  shows "c \<in> set ''0123456789''"
proof -
  from assms have "48 \<le> (of_char c :: nat) \<and> (of_char c :: nat) \<le> 57"
    by (simp add: is_digit_def Let_def)
  then have "(of_char c :: nat) = 48 \<or> (of_char c :: nat) = 49 \<or> (of_char c :: nat) = 50 \<or>
      (of_char c :: nat) = 51 \<or> (of_char c :: nat) = 52 \<or> (of_char c :: nat) = 53 \<or>
      (of_char c :: nat) = 54 \<or> (of_char c :: nat) = 55 \<or> (of_char c :: nat) = 56 \<or>
      (of_char c :: nat) = 57"
    by arith
  then show ?thesis
    using char_by_code [of c 48 "CHR ''0''"] char_by_code [of c 49 "CHR ''1''"]
      char_by_code [of c 50 "CHR ''2''"] char_by_code [of c 51 "CHR ''3''"]
      char_by_code [of c 52 "CHR ''4''"] char_by_code [of c 53 "CHR ''5''"]
      char_by_code [of c 54 "CHR ''6''"] char_by_code [of c 55 "CHR ''7''"]
      char_by_code [of c 56 "CHR ''8''"] char_by_code [of c 57 "CHR ''9''"]
    by auto
qed

lemma strptime_examples:
  "strptime_Ymd ''2024-05-01'' = Some (2024, 5, 1)"
  "strptime_Ymd ''2024-02-29'' = Some (2024, 2, 29)"
  "strptime_Ymd ''2023-02-29'' = None"
  "strptime_Ymd ''2024-1-5'' = Some (2024, 1, 5)"
  "strptime_Ymd ''2024-13-01'' = None"
  "strptime_Ymd ''2024-01-32'' = None"
  "strptime_Ymd ''0000-01-01'' = None"
  "strptime_Ymd ''morgen'' = None"
  by (simp_all add: strptime_Ymd_def match_Ymd_def month_alts_def day_alts_def after_month_def
      is_digit_def digit_nat_def days_in_month_def is_leap_def)

lemma days_in_month_le: "days_in_month y m \<le> 31"
  by (simp add: days_in_month_def)

lemma month_of_two_digits:
  assumes "is_digit a" "is_digit b"
  shows "concat (map after_month (month_alts (a # b # CHR ''-'' # r))) =
           (if 1 \<le> 10 * digit_nat a + digit_nat b \<and> 10 * digit_nat a + digit_nat b \<le> 12
            then map (\<lambda>dr. ((10 * digit_nat a + digit_nat b, fst dr), snd dr)) (day_alts r)
            else [])"
  using is_digit_cases [OF assms(1)] is_digit_cases [OF assms(2)]
  apply (simp only: list.set insert_iff empty_iff)
  apply (elim disjE)
  apply (simp_all add: month_alts_def after_month_def digit_nat_def)
  done

lemma day_of_two_digits:
  assumes "is_digit a" "is_digit b"
  shows "(10 * digit_nat a + digit_nat b = 0 \<longrightarrow> day_alts (a # b # t) = []) \<and>
         (1 \<le> 10 * digit_nat a + digit_nat b \<and> 10 * digit_nat a + digit_nat b \<le> 31 \<longrightarrow>
            (\<exists>rest. day_alts (a # b # t) = (10 * digit_nat a + digit_nat b, t) # rest)) \<and>
         (31 < 10 * digit_nat a + digit_nat b \<longrightarrow>
            (\<exists>rest. day_alts (a # b # t) = (digit_nat a, b # t) # rest))"
  using is_digit_cases [OF assms(1)] is_digit_cases [OF assms(2)]
  apply (simp only: list.set insert_iff empty_iff)
  apply (elim disjE)
  apply (simp_all add: day_alts_def digit_nat_def is_digit_def)
  done

lemma strptime_ten:
  assumes "is_digit y1" "is_digit y2" "is_digit y3" "is_digit y4"
    and "is_digit m1" "is_digit m2" "is_digit d1" "is_digit d2"
  shows "strptime_Ymd (y1 # y2 # y3 # y4 # CHR ''-'' # m1 # m2 # CHR ''-'' # d1 # d2 # t) =
     (if t = [] \<and>
         1 \<le> 1000 * digit_nat y1 + 100 * digit_nat y2 + 10 * digit_nat y3 + digit_nat y4 \<and>
         1 \<le> 10 * digit_nat m1 + digit_nat m2 \<and> 10 * digit_nat m1 + digit_nat m2 \<le> 12 \<and>
         1 \<le> 10 * digit_nat d1 + digit_nat d2 \<and>
         10 * digit_nat d1 + digit_nat d2
           \<le> days_in_month (1000 * digit_nat y1 + 100 * digit_nat y2 + 10 * digit_nat y3 + digit_nat y4)
                (10 * digit_nat m1 + digit_nat m2)
      then Some (1000 * digit_nat y1 + 100 * digit_nat y2 + 10 * digit_nat y3 + digit_nat y4,
                 10 * digit_nat m1 + digit_nat m2, 10 * digit_nat d1 + digit_nat d2)
      else None)"
proof -
  let ?Y = "1000 * digit_nat y1 + 100 * digit_nat y2 + 10 * digit_nat y3 + digit_nat y4"
  let ?M = "10 * digit_nat m1 + digit_nat m2"
  let ?D = "10 * digit_nat d1 + digit_nat d2"
  note da = day_of_two_digits [OF assms(7) assms(8), of t]
  have dm: "days_in_month ?Y ?M \<le> 31" by (rule days_in_month_le)
  define ms where "ms = concat (map after_month (month_alts (m1 # m2 # CHR ''-'' # d1 # d2 # t)))"
  have mo: "ms = (if 1 \<le> ?M \<and> ?M \<le> 12
                  then map (\<lambda>dr. ((?M, fst dr), snd dr)) (day_alts (d1 # d2 # t)) else [])"
    unfolding ms_def by (rule month_of_two_digits [OF assms(5) assms(6)])
  have gen: "(case (case xs of [] \<Rightarrow> None
                    | md # x \<Rightarrow> Some ((?Y, fst (fst md), snd (fst md)), snd md)) of
                None \<Rightarrow> None
              | Some (ymd, rest) \<Rightarrow>
                  if rest \<noteq> [] then None
                  else (case ymd of (y, m, d) \<Rightarrow>
                          if 1 \<le> y \<and> d \<le> days_in_month y m then Some (y, m, d) else None)) =
             (case xs of
                [] \<Rightarrow> None
              | md # x \<Rightarrow>
                  if snd md \<noteq> [] then None
                  else if 1 \<le> ?Y \<and> snd (fst md) \<le> days_in_month ?Y (fst (fst md))
                       then Some (?Y, fst (fst md), snd (fst md)) else None)"
    for xs :: "((nat \<times> nat) \<times> string) list"
    by (cases xs) (auto simp add: case_prod_beta)
  have u: "strptime_Ymd (y1 # y2 # y3 # y4 # CHR ''-'' # m1 # m2 # CHR ''-'' # d1 # d2 # t) =
     (case ms of
        [] \<Rightarrow> None
      | md # x \<Rightarrow>
          if snd md \<noteq> [] then None
          else if 1 \<le> ?Y \<and> snd (fst md) \<le> days_in_month ?Y (fst (fst md))
               then Some (?Y, fst (fst md), snd (fst md)) else None)"
    unfolding ms_def using assms(1-4) by (simp add: strptime_Ymd_def match_Ymd_def gen)
  show ?thesis
  proof (cases "1 \<le> ?M \<and> ?M \<le> 12")
    case False
    with mo have "ms = []" by auto
    with False show ?thesis unfolding u by auto
  next
    case True
    with mo have ms: "ms = map (\<lambda>dr. ((?M, fst dr), snd dr)) (day_alts (d1 # d2 # t))" by auto
    consider "?D = 0" | "1 \<le> ?D \<and> ?D \<le> 31" | "31 < ?D" by arith
    then show ?thesis
    proof cases
      case 1
      with da have "day_alts (d1 # d2 # t) = []" by blast
      with ms have "ms = []" by simp
      with 1 show ?thesis unfolding u by auto
    next
      case 2
      with da obtain rest where "day_alts (d1 # d2 # t) = (?D, t) # rest" by blast
      with ms have "ms = ((?M, ?D), t) # map (\<lambda>dr. ((?M, fst dr), snd dr)) rest" by simp
      with 2 True show ?thesis unfolding u by auto
    next
      case 3
      with da obtain rest where "day_alts (d1 # d2 # t) = (digit_nat d1, d2 # t) # rest" by blast
      with ms have "ms = ((?M, digit_nat d1), d2 # t) # map (\<lambda>dr. ((?M, fst dr), snd dr)) rest"
        by simp
      moreover from 3 dm have "\<not> ?D \<le> days_in_month ?Y ?M" by arith
      ultimately show ?thesis unfolding u by auto
    qed
  qed
qed

lemma path_regex_ok_shape:
  "path_regex_ok s =
     (\<exists>y1 y2 y3 y4 m1 m2 d1 d2 t.
        s = y1 # y2 # y3 # y4 # CHR ''-'' # m1 # m2 # CHR ''-'' # d1 # d2 # t \<and>
        is_digit y1 \<and> is_digit y2 \<and> is_digit y3 \<and> is_digit y4 \<and>
        is_digit m1 \<and> is_digit m2 \<and> is_digit d1 \<and> is_digit d2 \<and>
        (t = [] \<or> t = [CHR 0x0A]))"
  by (auto simp add: path_regex_ok_def split: list.splits)

lemma strict_date_shape:
  "strict_date s =
     (\<exists>y1 y2 y3 y4 m1 m2 d1 d2.
        s = [y1, y2, y3, y4, CHR ''-'', m1, m2, CHR ''-'', d1, d2] \<and>
        is_digit y1 \<and> is_digit y2 \<and> is_digit y3 \<and> is_digit y4 \<and>
        is_digit m1 \<and> is_digit m2 \<and> is_digit d1 \<and> is_digit d2 \<and>
        1 \<le> 1000 * digit_nat y1 + 100 * digit_nat y2 + 10 * digit_nat y3 + digit_nat y4 \<and>
        1 \<le> 10 * digit_nat m1 + digit_nat m2 \<and> 10 * digit_nat m1 + digit_nat m2 \<le> 12 \<and>
        1 \<le> 10 * digit_nat d1 + digit_nat d2 \<and>
        10 * digit_nat d1 + digit_nat d2
          \<le> days_in_month (1000 * digit_nat y1 + 100 * digit_nat y2 + 10 * digit_nat y3 + digit_nat y4)
               (10 * digit_nat m1 + digit_nat m2))"
  by (auto simp add: strict_date_def Let_def split: list.splits)

lemma validation_iff:
  "(path_regex_ok s \<and> strptime_Ymd s \<noteq> None) = strict_date s"
proof
  assume h: "path_regex_ok s \<and> strptime_Ymd s \<noteq> None"
  then obtain y1 y2 y3 y4 m1 m2 d1 d2 t where
    s: "s = y1 # y2 # y3 # y4 # CHR ''-'' # m1 # m2 # CHR ''-'' # d1 # d2 # t" and
    d: "is_digit y1" "is_digit y2" "is_digit y3" "is_digit y4"
       "is_digit m1" "is_digit m2" "is_digit d1" "is_digit d2"
    unfolding path_regex_ok_shape by blast
  from h have "strptime_Ymd s \<noteq> None" by simp
  then have "t = [] \<and>
      1 \<le> 1000 * digit_nat y1 + 100 * digit_nat y2 + 10 * digit_nat y3 + digit_nat y4 \<and>
      1 \<le> 10 * digit_nat m1 + digit_nat m2 \<and> 10 * digit_nat m1 + digit_nat m2 \<le> 12 \<and>
      1 \<le> 10 * digit_nat d1 + digit_nat d2 \<and>
      10 * digit_nat d1 + digit_nat d2
        \<le> days_in_month (1000 * digit_nat y1 + 100 * digit_nat y2 + 10 * digit_nat y3 + digit_nat y4)
             (10 * digit_nat m1 + digit_nat m2)"
    unfolding s strptime_ten [OF d] by (simp split: if_splits)
  with s d show "strict_date s" unfolding strict_date_shape by blast
next
  assume "strict_date s"
  then obtain y1 y2 y3 y4 m1 m2 d1 d2 where
    s: "s = [y1, y2, y3, y4, CHR ''-'', m1, m2, CHR ''-'', d1, d2]" and
    d: "is_digit y1" "is_digit y2" "is_digit y3" "is_digit y4"
       "is_digit m1" "is_digit m2" "is_digit d1" "is_digit d2" and
    c: "1 \<le> 1000 * digit_nat y1 + 100 * digit_nat y2 + 10 * digit_nat y3 + digit_nat y4 \<and>
        1 \<le> 10 * digit_nat m1 + digit_nat m2 \<and> 10 * digit_nat m1 + digit_nat m2 \<le> 12 \<and>
        1 \<le> 10 * digit_nat d1 + digit_nat d2 \<and>
        10 * digit_nat d1 + digit_nat d2
          \<le> days_in_month (1000 * digit_nat y1 + 100 * digit_nat y2 + 10 * digit_nat y3 + digit_nat y4)
               (10 * digit_nat m1 + digit_nat m2)"
    unfolding strict_date_shape by blast
  have "path_regex_ok s" unfolding path_regex_ok_shape using s d by blast
  moreover have "strptime_Ymd s \<noteq> None"
    unfolding s strptime_ten [OF d] using c by simp
  ultimately show "path_regex_ok s \<and> strptime_Ymd s \<noteq> None" by simp
qed

lemma reqs_fetch_less:
  "make_rate_limited_request net url ps w = (res, w1) \<Longrightarrow> reqs w < reqs w1"
  using reqs_fetch_lower [of w net url ps] by simp

lemma reqs_fetch_metadata:
  "fetch_metadata env mu w = (res, w1) \<Longrightarrow> reqs w \<le> reqs w1"
  by (auto simp add: fetch_metadata_def
      split: option.splits prod.splits sum.splits if_splits dest!: reqs_fetch_less)

lemma reqs_process_record:
  "process_record env rcd w = (res, w1) \<Longrightarrow> reqs w \<le> reqs w1"
  by (auto simp add: process_record_def Let_def
      split: option.splits prod.splits sum.splits if_splits
      dest!: reqs_fetch_less reqs_fetch_metadata)

lemma reqs_process_records:
  "process_records env rs acc w = (res, w') \<Longrightarrow> reqs w \<le> reqs w'"
proof (induction rs arbitrary: acc w)
  case Nil
  then show ?case by simp
next
  case (Cons x rs)
  obtain r1 w1 where pr: "process_record env x w = (r1, w1)" by (cases "process_record env x w")
  from reqs_process_record [OF pr] have le: "reqs w \<le> reqs w1" .
  show ?case
  proof (cases r1)
    case (Inl e)
    with Cons.prems pr le show ?thesis by auto
  next
    case (Inr o1)
    show ?thesis
    proof (cases o1)
      case None
      with Inr pr Cons.prems have "process_records env rs acc w1 = (res, w')" by simp
      from Cons.IH [OF this] le show ?thesis by simp
    next
      case (Some d1)
      with Inr pr Cons.prems have "process_records env rs (acc @ [d1]) w1 = (res, w')" by simp
      from Cons.IH [OF this] le show ?thesis by simp
    qed
  qed
qed

lemma reqs_run:
  "reqs w < reqs (snd (get_besluiten_for_date env date_str w))"
proof -
  obtain res w' where g: "get_besluiten_for_date env date_str w = (res, w')"
    by (cases "get_besluiten_for_date env date_str w")
  then have "reqs w < reqs w'"
    by (auto simp add: get_besluiten_for_date_def Let_def
        split: option.splits prod.splits sum.splits if_splits
        dest!: reqs_fetch_less reqs_process_records)
  with g show ?thesis by simp
qed

lemma reqs_download:
  "download_en_convert_pdf_bijlage env code bid w = (u, w1) \<Longrightarrow> reqs w \<le> reqs w1"
  by (auto simp add: download_en_convert_pdf_bijlage_def
      split: option.splits prod.splits sum.splits list.splits if_splits
      dest!: reqs_fetch_less)

lemma reqs_convert_first_image:
  "convert_first_image env b w = (b1, w1) \<Longrightarrow> reqs w \<le> reqs w1"
  by (auto simp add: convert_first_image_def
      split: option.splits prod.splits list.splits if_splits dest!: reqs_download)

lemma reqs_convert_images:
  "convert_images env bs w = (bs1, w1) \<Longrightarrow> reqs w \<le> reqs w1"
proof (induction bs arbitrary: bs1 w w1)
  case Nil
  then show ?case by simp
next
  case (Cons b bs)
  obtain b2 w2 where c: "convert_first_image env b w = (b2, w2)"
    by (cases "convert_first_image env b w")
  obtain bs3 w3 where r: "convert_images env bs w2 = (bs3, w3)"
    by (cases "convert_images env bs w2")
  from Cons.prems c r have "w1 = w3" by simp
  with reqs_convert_first_image [OF c] Cons.IH [OF r] show ?case by simp
qed

lemma reqs_route:
  assumes "path_regex_ok date_str" and "strptime_Ymd date_str \<noteq> None"
  shows "reqs w < reqs (snd (get_besluiten_by_date env date_str w))"
proof -
  obtain res w1 where g: "get_besluiten_for_date env date_str w = (res, w1)"
    by (cases "get_besluiten_for_date env date_str w")
  with reqs_run [of w env date_str] have l: "reqs w < reqs w1" by simp
  obtain out w2 where o: "get_besluiten_by_date env date_str w = (out, w2)"
    by (cases "get_besluiten_by_date env date_str w")
  with assms g have "reqs w1 \<le> reqs w2"
    by (auto simp add: get_besluiten_by_date_def
        split: sum.splits prod.splits if_splits dest!: reqs_convert_images)
  with l o show ?thesis by simp
qed

text \<open>
  Claim C10, as amended. \<^verbatim>\<open>get_besluiten_for_date\<close> validates nothing: for every string
  it issues the search request. The date is validated by the route
  \<^verbatim>\<open>get_besluiten_by_date\<close>: for every ASCII string that is not a strict calendar date
  the route answers with the status 422 (the pattern of the path) or 400 (the check with
  \<^verbatim>\<open>strptime\<close>) and leaves the state as it was, so no request has been made and nothing
  has been retried; for a strict calendar date it answers neither and the search request
  is issued.
\<close>

theorem date_validated_by_route:
  "reqs w < reqs (snd (get_besluiten_for_date env date_str w)) \<and>
   (ascii date_str \<and> \<not> strict_date date_str \<longrightarrow>
      snd (get_besluiten_by_date env date_str w) = w \<and>
      (fst (get_besluiten_by_date env date_str w) = HTTP_error 422 \<or>
       fst (get_besluiten_by_date env date_str w) = HTTP_error 400)) \<and>
   (strict_date date_str \<longrightarrow>
      reqs w < reqs (snd (get_besluiten_by_date env date_str w)) \<and>
      fst (get_besluiten_by_date env date_str w) \<noteq> HTTP_error 422 \<and>
      fst (get_besluiten_by_date env date_str w) \<noteq> HTTP_error 400)"
proof (intro conjI impI)
  show "reqs w < reqs (snd (get_besluiten_for_date env date_str w))" by (rule reqs_run)
next
  assume "ascii date_str \<and> \<not> strict_date date_str"
  then have n: "\<not> path_regex_ok date_str \<or> strptime_Ymd date_str = None"
    using validation_iff [of date_str] by blast
  then show "snd (get_besluiten_by_date env date_str w) = w"
    by (auto simp add: get_besluiten_by_date_def)
  from n show "fst (get_besluiten_by_date env date_str w) = HTTP_error 422 \<or>
       fst (get_besluiten_by_date env date_str w) = HTTP_error 400"
    by (auto simp add: get_besluiten_by_date_def)
next
  assume "strict_date date_str"
  then have v: "path_regex_ok date_str" "strptime_Ymd date_str \<noteq> None"
    using validation_iff [of date_str] by blast+
  from reqs_route [OF v] show "reqs w < reqs (snd (get_besluiten_by_date env date_str w))" .
  from v show "fst (get_besluiten_by_date env date_str w) \<noteq> HTTP_error 422"
    by (auto simp add: get_besluiten_by_date_def split: sum.splits prod.splits)
  from v show "fst (get_besluiten_by_date env date_str w) \<noteq> HTTP_error 400"
    by (auto simp add: get_besluiten_by_date_def split: sum.splits prod.splits)
qed

lemmas eval_date = strict_date_def path_regex_ok_def strptime_Ymd_def match_Ymd_def
  month_alts_def day_alts_def after_month_def is_digit_def digit_nat_def days_in_month_def
  is_leap_def Let_def

text \<open>
  Claim C10, as amended, at three paths of the route on a site without decisions: a
  word, a day that does not exist, and a date.
\<close>

theorem date_validated_by_route_witness:
  "get_besluiten_by_date (sample_env (resp_ok sru_empty_body) resp_404 resp_404) ''morgen'' w_init
     = (HTTP_error 422, w_init) \<and>
   get_besluiten_by_date (sample_env (resp_ok sru_empty_body) resp_404 resp_404) ''2024-02-30'' w_init
     = (HTTP_error 400, w_init) \<and>
   strict_date ''2024-05-01'' \<and>
   fst (get_besluiten_by_date (sample_env (resp_ok sru_empty_body) resp_404 resp_404)
          ''2024-05-01'' w_init) = Not_found \<and>
   reqs (snd (get_besluiten_by_date (sample_env (resp_ok sru_empty_body) resp_404 resp_404)
          ''2024-05-01'' w_init)) = 1"
proof -
  let ?E = "sample_env (resp_ok sru_empty_body) resp_404 resp_404"
  have n1: "ascii ''morgen'' \<and> \<not> strict_date ''morgen''" by (simp add: eval_date ascii_def)
  have n2: "ascii ''2024-02-30'' \<and> \<not> strict_date ''2024-02-30''"
    by (simp add: eval_date ascii_def)
  have s3: "strict_date ''2024-05-01''" by (simp add: eval_date)
  have f1: "fst (get_besluiten_by_date ?E ''morgen'' w_init) = HTTP_error 422"
    by (simp add: get_besluiten_by_date_def eval_date)
  have f2: "fst (get_besluiten_by_date ?E ''2024-02-30'' w_init) = HTTP_error 400"
    by (simp add: get_besluiten_by_date_def eval_date)
  have e: "fst (get_besluiten_for_date ?E ''2024-05-01'' w_init) = Inr [] \<and>
      reqs (snd (get_besluiten_for_date ?E ''2024-05-01'' w_init)) = 1"
    by (simp add: eval_run eval_fetch eval_xml sample_docs w_init_def)
  then obtain w1 where run: "get_besluiten_for_date ?E ''2024-05-01'' w_init = (Inr [], w1)"
    and q: "reqs w1 = 1"
    by (cases "get_besluiten_for_date ?E ''2024-05-01'' w_init") simp
  have v: "path_regex_ok ''2024-05-01''" "strptime_Ymd ''2024-05-01'' \<noteq> None"
    by (simp_all add: eval_date)
  have f3: "get_besluiten_by_date ?E ''2024-05-01'' w_init = (Not_found, w1)"
    using v run by (simp add: get_besluiten_by_date_def)
  from date_validated_by_route [of w_init ?E "''morgen''"] n1
  have "snd (get_besluiten_by_date ?E ''morgen'' w_init) = w_init" by blast
  moreover from date_validated_by_route [of w_init ?E "''2024-02-30''"] n2
  have "snd (get_besluiten_by_date ?E ''2024-02-30'' w_init) = w_init" by blast
  moreover from date_validated_by_route [of w_init ?E "''2024-05-01''"] s3
  have "reqs w_init < reqs (snd (get_besluiten_by_date ?E ''2024-05-01'' w_init))" by blast
  ultimately show ?thesis using f1 f2 f3 q s3 by (simp add: prod_eq_iff)
qed

end
